theory Spec2Isabelle
  imports Main
begin

section \<open>JavaScript values and truthiness\<close>

text \<open>
  The maps are generic in their value type. A value is modelled by the JavaScript
  value kinds that matter for the accessors: \<open>get\<close> and \<open>getOr\<close> test the looked-up
  value with \<open>!value\<close>, so the model carries the language's ToBoolean. Numbers are the
  integer-valued ones and NaN; an object is its reference.
\<close>

datatype jsval =
    JUndefined
  | JNull
  | JBool bool
  | JNum int
  | JNaN
  | JStr string
  | JObj nat

fun truthy :: "jsval \<Rightarrow> bool" where
  "truthy JUndefined = False"
| "truthy JNull = False"
| "truthy (JBool b) = b"
| "truthy (JNum n) = (n \<noteq> 0)"
| "truthy JNaN = False"
| "truthy (JStr s) = (s \<noteq> [])"
| "truthy (JObj r) = True"

section \<open>The built-in Map and the store of Map objects\<close>

text \<open>
  An ES6 \<open>Map\<close> keeps its entries in insertion order with unique keys: the list of
  entries in that order. \<open>Map.prototype.set\<close> overwrites the value of a present key in
  place and appends an absent one; \<open>get\<close> of an absent key is \<open>undefined\<close>;
  \<open>new Map(entries)\<close> sets the entries one after the other. Keys are compared by
  equality of the key type, which stands for the SameValueZero comparison: a key that
  is an object is to be given as its reference. \<open>Map_wf\<close> says that no key is listed
  twice, as in every \<open>Map\<close>.
\<close>

type_synonym 'h NativeMap = "('h \<times> jsval) list"

fun Map_has :: "'h NativeMap \<Rightarrow> 'h \<Rightarrow> bool" where
  "Map_has [] k = False"
| "Map_has ((k', v') # m) k = (if k' = k then True else Map_has m k)"

fun Map_get :: "'h NativeMap \<Rightarrow> 'h \<Rightarrow> jsval" where
  "Map_get [] k = JUndefined"
| "Map_get ((k', v') # m) k = (if k' = k then v' else Map_get m k)"

fun Map_set :: "'h NativeMap \<Rightarrow> 'h \<Rightarrow> jsval \<Rightarrow> 'h NativeMap" where
  "Map_set [] k v = [(k, v)]"
| "Map_set ((k', v') # m) k v = (if k' = k then (k', v) # m else (k', v') # Map_set m k v)"

fun Map_delete :: "'h NativeMap \<Rightarrow> 'h \<Rightarrow> 'h NativeMap" where
  "Map_delete [] k = []"
| "Map_delete ((k', v') # m) k = (if k' = k then Map_delete m k else (k', v') # Map_delete m k)"

fun Map_from :: "'h NativeMap \<Rightarrow> ('h \<times> jsval) list \<Rightarrow> 'h NativeMap" where
  "Map_from m [] = m"
| "Map_from m ((k, v) # entries) = Map_from (Map_set m k v) entries"

definition new_Map :: "('h \<times> jsval) list \<Rightarrow> 'h NativeMap" where
  "new_Map entries = Map_from [] entries"

definition Map_wf :: "'h NativeMap \<Rightarrow> bool" where
  "Map_wf m = distinct (map fst m)"

text \<open>
  The map classes hold a reference to a \<open>Map\<close> object and mutate it in place. The store
  maps each reference to the entries of the \<open>Map\<close> it denotes; \<open>fresh\<close> is the next
  reference that \<open>new Map\<close> hands out.
\<close>

record 'h store =
  maps :: "nat \<Rightarrow> 'h NativeMap"
  fresh :: nat

definition empty_store :: "'h store" where
  "empty_store = \<lparr>maps = (\<lambda>r. []), fresh = 0\<rparr>"

definition alloc_Map :: "'h store \<Rightarrow> ('h \<times> jsval) list \<Rightarrow> 'h store \<times> nat" where
  "alloc_Map s entries =
     (s\<lparr>maps := (maps s)(fresh s := new_Map entries), fresh := Suc (fresh s)\<rparr>, fresh s)"

definition write_Map :: "'h store \<Rightarrow> nat \<Rightarrow> 'h NativeMap \<Rightarrow> 'h store" where
  "write_Map s r m = s\<lparr>maps := (maps s)(r := m)\<rparr>"

section \<open>The loops of filter and map\<close>

text \<open>
  A call of the filter predicate, as the loop makes it: the value, the key and the index
  it was given, and what it answered. The fourth argument is always the map being
  filtered. The callbacks are taken to be free of side effects.
\<close>

record 'a filter_call =
  call_value :: jsval
  call_key :: 'a
  call_index :: nat
  call_result :: bool

text \<open>
  \<open>HashMap.filter\<close> of both HashMap classes: the index handed to the predicate is
  \<open>entries.length\<close>, the number of entries pushed so far.
\<close>

fun filter_loop ::
  "(jsval \<Rightarrow> 'a \<Rightarrow> nat \<Rightarrow> 'm \<Rightarrow> bool) \<Rightarrow> 'm \<Rightarrow> ('a \<times> jsval) list \<Rightarrow>
   ('a \<times> jsval) list \<Rightarrow> 'a filter_call list \<Rightarrow> ('a \<times> jsval) list \<times> 'a filter_call list" where
  "filter_loop fn this [] entries calls = (entries, calls)"
| "filter_loop fn this ((key, value) # rest) entries calls =
     (let r = fn value key (length entries) this
      in filter_loop fn this rest
           (if r then entries @ [(key, value)] else entries)
           (calls @ [\<lparr>call_value = value, call_key = key, call_index = length entries,
                      call_result = r\<rparr>]))"

text \<open>
  \<open>DefaultMap.filter\<close>: a counter of its own, incremented after every entry.
\<close>

fun filter_loop_index ::
  "(jsval \<Rightarrow> 'a \<Rightarrow> nat \<Rightarrow> 'm \<Rightarrow> bool) \<Rightarrow> 'm \<Rightarrow> ('a \<times> jsval) list \<Rightarrow>
   ('a \<times> jsval) list \<Rightarrow> nat \<Rightarrow> 'a filter_call list \<Rightarrow>
   ('a \<times> jsval) list \<times> 'a filter_call list" where
  "filter_loop_index fn this [] entries index calls = (entries, calls)"
| "filter_loop_index fn this ((key, value) # rest) entries index calls =
     (let r = fn value key index this
      in filter_loop_index fn this rest
           (if r then entries @ [(key, value)] else entries)
           (index + 1)
           (calls @ [\<lparr>call_value = value, call_key = key, call_index = index,
                      call_result = r\<rparr>]))"

text \<open>\<open>HashMap.map\<close> of both HashMap classes: every result is pushed.\<close>

fun map_loop ::
  "(jsval \<Rightarrow> 'a \<Rightarrow> nat \<Rightarrow> 'm \<Rightarrow> 'a \<times> jsval) \<Rightarrow> 'm \<Rightarrow> ('a \<times> jsval) list \<Rightarrow>
   ('a \<times> jsval) list \<Rightarrow> ('a \<times> jsval) list" where
  "map_loop fn this [] entries = entries"
| "map_loop fn this ((key, value) # rest) entries =
     map_loop fn this rest (entries @ [fn value key (length entries) this])"

text \<open>\<open>DefaultMap.map\<close>, \<open>mapKeys\<close> and \<open>mapValues\<close>: the same loop with the counter.\<close>

fun map_loop_index ::
  "(jsval \<Rightarrow> 'a \<Rightarrow> nat \<Rightarrow> 'm \<Rightarrow> 'a \<times> jsval) \<Rightarrow> 'm \<Rightarrow> ('a \<times> jsval) list \<Rightarrow>
   ('a \<times> jsval) list \<Rightarrow> nat \<Rightarrow> ('a \<times> jsval) list" where
  "map_loop_index fn this [] entries index = entries"
| "map_loop_index fn this ((key, value) # rest) entries index =
     map_loop_index fn this rest (entries @ [fn value key index this]) (index + 1)"

section \<open>HashMap with a hash function (Data/HashMap)\<close>

text \<open>
  The class has the fields \<open>hash\<close>, \<open>_map\<close> (here \<open>p_map\<close>, the reference of its \<open>Map\<close>) and
  \<open>name\<close>, all read-only: an instance is this record, and what changes is the \<open>Map\<close> in
  the store. The error carries the map and the key; its message text is left out.
\<close>

record ('k, 'h) HashMap =
  hash :: "'k \<Rightarrow> 'h"
  p_map :: nat
  name :: string

datatype ('k, 'h) HashMapMissingKeyError =
  HashMapMissingKeyError (error_map: "('k, 'h) HashMap") (error_key: 'k)

definition new_HashMap ::
  "('k \<Rightarrow> 'h) \<Rightarrow> nat \<Rightarrow> string option \<Rightarrow> ('k, 'h) HashMap" where
  "new_HashMap h r n =
     \<lparr>hash = h, p_map = r, name = (case n of None \<Rightarrow> ''unknown'' | Some x \<Rightarrow> x)\<rparr>"

definition HashMap_empty :: "'k store \<Rightarrow> string option \<Rightarrow> 'k store \<times> ('k, 'k) HashMap" where
  "HashMap_empty s n = (let (s', r) = alloc_Map s [] in (s', new_HashMap id r n))"

definition HashMap_emptyWithCustomHash ::
  "'h store \<Rightarrow> ('k \<Rightarrow> 'h) \<Rightarrow> string option \<Rightarrow> 'h store \<times> ('k, 'h) HashMap" where
  "HashMap_emptyWithCustomHash s onHash n =
     (let (s', r) = alloc_Map s [] in (s', new_HashMap onHash r n))"

definition HashMap_fromCustomEntries ::
  "'h store \<Rightarrow> ('k \<times> jsval) list \<Rightarrow> ('k \<Rightarrow> 'h) \<Rightarrow> string option \<Rightarrow>
   'h store \<times> ('k, 'h) HashMap" where
  "HashMap_fromCustomEntries s entries onHash n =
     (let (s', r) = alloc_Map s (map (\<lambda>(k, v). (onHash k, v)) entries)
      in (s', new_HashMap onHash r n))"

definition HashMap_fromEntries ::
  "'k store \<Rightarrow> ('k \<times> jsval) list \<Rightarrow> string option \<Rightarrow> 'k store \<times> ('k, 'k) HashMap" where
  "HashMap_fromEntries s entries n =
     (let (s', r) = alloc_Map s (map (\<lambda>(key, value). (key, value)) entries)
      in (s', new_HashMap id r n))"

definition hashKey :: "('k, 'h) HashMap \<Rightarrow> 'k \<Rightarrow> 'h" where
  "hashKey m key = hash m key"

definition HashMap_has :: "'h store \<Rightarrow> ('k, 'h) HashMap \<Rightarrow> 'k \<Rightarrow> bool" where
  "HashMap_has s m key = Map_has (maps s (p_map m)) (hashKey m key)"

definition HashMap_get ::
  "'h store \<Rightarrow> ('k, 'h) HashMap \<Rightarrow> 'k \<Rightarrow> ('k, 'h) HashMapMissingKeyError + jsval" where
  "HashMap_get s m key =
     (let value = Map_get (maps s (p_map m)) (hashKey m key)
      in if \<not> truthy value then Inl (HashMapMissingKeyError m key) else Inr value)"

definition HashMap_getOr :: "'h store \<Rightarrow> ('k, 'h) HashMap \<Rightarrow> 'k \<Rightarrow> jsval \<Rightarrow> jsval" where
  "HashMap_getOr s m key defaultValue =
     (let value = Map_get (maps s (p_map m)) (hashKey m key)
      in if \<not> truthy value then defaultValue else value)"

definition HashMap_set :: "'h store \<Rightarrow> ('k, 'h) HashMap \<Rightarrow> 'k \<Rightarrow> jsval \<Rightarrow> 'h store" where
  "HashMap_set s m key value =
     write_Map s (p_map m) (Map_set (maps s (p_map m)) (hashKey m key) value)"

definition HashMap_clear :: "'h store \<Rightarrow> ('k, 'h) HashMap \<Rightarrow> 'h store" where
  "HashMap_clear s m = write_Map s (p_map m) []"

definition HashMap_delete ::
  "'h store \<Rightarrow> ('k, 'h) HashMap \<Rightarrow> 'k \<Rightarrow> ('k, 'h) HashMapMissingKeyError + 'h store" where
  "HashMap_delete s m key =
     (if \<not> HashMap_has s m key then Inl (HashMapMissingKeyError m key)
      else Inr (write_Map s (p_map m) (Map_delete (maps s (p_map m)) (hash m key))))"

definition HashMap_deleteIfExists ::
  "'h store \<Rightarrow> ('k, 'h) HashMap \<Rightarrow> 'k \<Rightarrow>
   ('k, 'h) HashMapMissingKeyError + ('h store \<times> bool)" where
  "HashMap_deleteIfExists s m key =
     (if \<not> HashMap_has s m key then Inr (s, False)
      else (case HashMap_delete s m key of
              Inl e \<Rightarrow> Inl e
            | Inr s' \<Rightarrow> Inr (s', True)))"

text \<open>
  The iterators are read to their end at once: \<open>entries()\<close> is the list of pairs its
  generator yields, in the order of the \<open>Map\<close>.
\<close>

definition HashMap_entries :: "'h store \<Rightarrow> ('k, 'h) HashMap \<Rightarrow> ('h \<times> jsval) list" where
  "HashMap_entries s m = map (\<lambda>(key, value). (key, value)) (maps s (p_map m))"

definition HashMap_keys :: "'h store \<Rightarrow> ('k, 'h) HashMap \<Rightarrow> 'h list" where
  "HashMap_keys s m = map fst (maps s (p_map m))"

definition HashMap_values :: "'h store \<Rightarrow> ('k, 'h) HashMap \<Rightarrow> jsval list" where
  "HashMap_values s m = map snd (maps s (p_map m))"

definition HashMap_iterator :: "'h store \<Rightarrow> ('k, 'h) HashMap \<Rightarrow> ('h \<times> jsval) list" where
  "HashMap_iterator s m = HashMap_entries s m"

definition HashMap_filter_run ::
  "'h store \<Rightarrow> ('k, 'h) HashMap \<Rightarrow> (jsval \<Rightarrow> 'h \<Rightarrow> nat \<Rightarrow> ('k, 'h) HashMap \<Rightarrow> bool) \<Rightarrow>
   ('h \<times> jsval) list \<times> 'h filter_call list" where
  "HashMap_filter_run s m fn = filter_loop fn m (HashMap_entries s m) [] []"

definition HashMap_filter ::
  "'h store \<Rightarrow> ('k, 'h) HashMap \<Rightarrow> (jsval \<Rightarrow> 'h \<Rightarrow> nat \<Rightarrow> ('k, 'h) HashMap \<Rightarrow> bool) \<Rightarrow>
   'h store \<times> ('k, 'h) HashMap" where
  "HashMap_filter s m fn =
     (let entries = fst (HashMap_filter_run s m fn);
          (s', r) = alloc_Map s entries
      in (s', new_HashMap (hash m) r (Some (name m))))"

definition HashMap_map ::
  "'h store \<Rightarrow> ('k, 'h) HashMap \<Rightarrow>
   (jsval \<Rightarrow> 'h \<Rightarrow> nat \<Rightarrow> ('k, 'h) HashMap \<Rightarrow> 'h \<times> jsval) \<Rightarrow>
   'h store \<times> ('k, 'h) HashMap" where
  "HashMap_map s m fn =
     (let entries = map_loop fn m (HashMap_entries s m) [];
          (s', r) = alloc_Map s entries
      in (s', new_HashMap (hash m) r (Some (name m))))"

definition HashMap_mapKeys ::
  "'h store \<Rightarrow> ('k, 'h) HashMap \<Rightarrow> ('h \<Rightarrow> jsval \<Rightarrow> nat \<Rightarrow> ('k, 'h) HashMap \<Rightarrow> 'h) \<Rightarrow>
   'h store \<times> ('k, 'h) HashMap" where
  "HashMap_mapKeys s m fn =
     HashMap_map s m (\<lambda>value key index original. (fn key value index original, value))"

definition HashMap_mapValues ::
  "'h store \<Rightarrow> ('k, 'h) HashMap \<Rightarrow> (jsval \<Rightarrow> 'h \<Rightarrow> nat \<Rightarrow> ('k, 'h) HashMap \<Rightarrow> jsval) \<Rightarrow>
   'h store \<times> ('k, 'h) HashMap" where
  "HashMap_mapValues s m fn =
     HashMap_map s m (\<lambda>value key index original. (key, fn value key index original))"

section \<open>HashMap with serialized keys (Data/Map/HashMap)\<close>

text \<open>
  The second HashMap class stores its entries under \<open>serializeKey(key)\<close>, a string, and
  hands keys back through \<open>deserializeKey\<close>. Where a caller leaves the two functions out
  they are \<open>JSON.stringify\<close> and \<open>JSON.parse\<close>; the model takes them as given.
\<close>

record 'k Map_HashMap =
  internalMap :: nat
  deserializeKey :: "string \<Rightarrow> 'k"
  serializeKey :: "'k \<Rightarrow> string"

datatype 'k MissingKeyError =
  MissingKeyError (missing_map: "'k Map_HashMap") (missing_key: 'k)

definition Map_HashMap_typename :: string where
  "Map_HashMap_typename = ''HashMap''"

definition Map_HashMap_empty ::
  "string store \<Rightarrow> (string \<Rightarrow> 'k) \<Rightarrow> ('k \<Rightarrow> string) \<Rightarrow> string store \<times> 'k Map_HashMap" where
  "Map_HashMap_empty s deserializeKey' serializeKey' =
     (let (s', r) = alloc_Map s []
      in (s', \<lparr>internalMap = r, deserializeKey = deserializeKey', serializeKey = serializeKey'\<rparr>))"

definition Map_HashMap_fromEntries ::
  "string store \<Rightarrow> ('k \<times> jsval) list \<Rightarrow> (string \<Rightarrow> 'k) \<Rightarrow> ('k \<Rightarrow> string) \<Rightarrow>
   string store \<times> 'k Map_HashMap" where
  "Map_HashMap_fromEntries s entries deserializeKey' serializeKey' =
     (let (s', r) = alloc_Map s (map (\<lambda>(key, value). (serializeKey' key, value)) entries)
      in (s', \<lparr>internalMap = r, deserializeKey = deserializeKey', serializeKey = serializeKey'\<rparr>))"

definition Map_HashMap_has :: "string store \<Rightarrow> 'k Map_HashMap \<Rightarrow> 'k \<Rightarrow> bool" where
  "Map_HashMap_has s m key = Map_has (maps s (internalMap m)) (serializeKey m key)"

definition Map_HashMap_get ::
  "string store \<Rightarrow> 'k Map_HashMap \<Rightarrow> 'k \<Rightarrow> 'k MissingKeyError + jsval" where
  "Map_HashMap_get s m key =
     (let value = Map_get (maps s (internalMap m)) (serializeKey m key)
      in if \<not> truthy value then Inl (MissingKeyError m key) else Inr value)"

definition Map_HashMap_getOr ::
  "string store \<Rightarrow> 'k Map_HashMap \<Rightarrow> 'k \<Rightarrow> jsval \<Rightarrow> jsval" where
  "Map_HashMap_getOr s m key defaultValue =
     (let value = Map_get (maps s (internalMap m)) (serializeKey m key)
      in if \<not> truthy value then defaultValue else value)"

definition Map_HashMap_set ::
  "string store \<Rightarrow> 'k Map_HashMap \<Rightarrow> 'k \<Rightarrow> jsval \<Rightarrow> string store" where
  "Map_HashMap_set s m key value =
     write_Map s (internalMap m) (Map_set (maps s (internalMap m)) (serializeKey m key) value)"

definition Map_HashMap_clear :: "string store \<Rightarrow> 'k Map_HashMap \<Rightarrow> string store" where
  "Map_HashMap_clear s m = write_Map s (internalMap m) []"

definition Map_HashMap_delete ::
  "string store \<Rightarrow> 'k Map_HashMap \<Rightarrow> 'k \<Rightarrow> 'k MissingKeyError + string store" where
  "Map_HashMap_delete s m key =
     (if \<not> Map_HashMap_has s m key then Inl (MissingKeyError m key)
      else Inr (write_Map s (internalMap m)
                  (Map_delete (maps s (internalMap m)) (serializeKey m key))))"

definition Map_HashMap_deleteIfExists ::
  "string store \<Rightarrow> 'k Map_HashMap \<Rightarrow> 'k \<Rightarrow> 'k MissingKeyError + (string store \<times> bool)" where
  "Map_HashMap_deleteIfExists s m key =
     (if \<not> Map_HashMap_has s m key then Inr (s, False)
      else (case Map_HashMap_delete s m key of
              Inl e \<Rightarrow> Inl e
            | Inr s' \<Rightarrow> Inr (s', True)))"

definition Map_HashMap_entries :: "string store \<Rightarrow> 'k Map_HashMap \<Rightarrow> ('k \<times> jsval) list" where
  "Map_HashMap_entries s m =
     map (\<lambda>(key, value). (deserializeKey m key, value)) (maps s (internalMap m))"

definition Map_HashMap_keys :: "string store \<Rightarrow> 'k Map_HashMap \<Rightarrow> 'k list" where
  "Map_HashMap_keys s m = map (\<lambda>key. deserializeKey m key) (map fst (maps s (internalMap m)))"

definition Map_HashMap_serializedKeys :: "string store \<Rightarrow> 'k Map_HashMap \<Rightarrow> string list" where
  "Map_HashMap_serializedKeys s m = map fst (maps s (internalMap m))"

definition Map_HashMap_values :: "string store \<Rightarrow> 'k Map_HashMap \<Rightarrow> jsval list" where
  "Map_HashMap_values s m = map snd (maps s (internalMap m))"

definition Map_HashMap_iterator :: "string store \<Rightarrow> 'k Map_HashMap \<Rightarrow> ('k \<times> jsval) list" where
  "Map_HashMap_iterator s m = Map_HashMap_entries s m"

definition Map_HashMap_filter_run ::
  "string store \<Rightarrow> 'k Map_HashMap \<Rightarrow> (jsval \<Rightarrow> 'k \<Rightarrow> nat \<Rightarrow> 'k Map_HashMap \<Rightarrow> bool) \<Rightarrow>
   ('k \<times> jsval) list \<times> 'k filter_call list" where
  "Map_HashMap_filter_run s m fn = filter_loop fn m (Map_HashMap_entries s m) [] []"

definition Map_HashMap_filter ::
  "string store \<Rightarrow> 'k Map_HashMap \<Rightarrow> (jsval \<Rightarrow> 'k \<Rightarrow> nat \<Rightarrow> 'k Map_HashMap \<Rightarrow> bool) \<Rightarrow>
   string store \<times> 'k Map_HashMap" where
  "Map_HashMap_filter s m fn =
     Map_HashMap_fromEntries s (fst (Map_HashMap_filter_run s m fn))
       (deserializeKey m) (serializeKey m)"

definition Map_HashMap_map ::
  "string store \<Rightarrow> 'k Map_HashMap \<Rightarrow>
   (jsval \<Rightarrow> 'k \<Rightarrow> nat \<Rightarrow> 'k Map_HashMap \<Rightarrow> 'k \<times> jsval) \<Rightarrow> string store \<times> 'k Map_HashMap" where
  "Map_HashMap_map s m fn =
     Map_HashMap_fromEntries s (map_loop fn m (Map_HashMap_entries s m) [])
       (deserializeKey m) (serializeKey m)"

definition Map_HashMap_mapKeys ::
  "string store \<Rightarrow> 'k Map_HashMap \<Rightarrow> ('k \<Rightarrow> jsval \<Rightarrow> nat \<Rightarrow> 'k Map_HashMap \<Rightarrow> 'k) \<Rightarrow>
   string store \<times> 'k Map_HashMap" where
  "Map_HashMap_mapKeys s m fn =
     Map_HashMap_map s m (\<lambda>value key index original. (fn key value index original, value))"

definition Map_HashMap_mapValues ::
  "string store \<Rightarrow> 'k Map_HashMap \<Rightarrow> (jsval \<Rightarrow> 'k \<Rightarrow> nat \<Rightarrow> 'k Map_HashMap \<Rightarrow> jsval) \<Rightarrow>
   string store \<times> 'k Map_HashMap" where
  "Map_HashMap_mapValues s m fn =
     Map_HashMap_map s m (\<lambda>value key index original. (key, fn value key index original))"

section \<open>DefaultMap (Data/Map/DefaultMap)\<close>

text \<open>
  A DefaultMap owns a HashMap with serialized keys and a function \<open>defaultValue(key, self)\<close>.
  The function cannot take the record it is a field of as an argument, so \<open>self\<close> reaches
  it as what it can read of the map: the store at the time of the call, the internal
  HashMap and the name. It is taken to be free of side effects. The fields of the class
  are \<open>internalMap\<close>, \<open>defaultValue\<close> and \<open>name\<close>; the first and the last carry the prefix
  \<open>dm\<close> here, apart from the fields of the HashMap.

  The older class of the same name beside Data/HashMap, whose default is tagged as a
  generator or a value, has no method but \<open>get\<close> and cannot be written to: it is not
  among the maps of this theory.
\<close>

type_synonym 'k self_view = "string store \<times> 'k Map_HashMap \<times> string option"

record 'k DefaultMap =
  dm_internalMap :: "'k Map_HashMap"
  defaultValue :: "'k \<Rightarrow> 'k self_view \<Rightarrow> jsval"
  dm_name :: "string option"

definition DefaultMap_typename :: string where
  "DefaultMap_typename = ''DefaultMap''"

definition self_of :: "string store \<Rightarrow> 'k DefaultMap \<Rightarrow> 'k self_view" where
  "self_of s m = (s, dm_internalMap m, dm_name m)"

definition DefaultMap_fromEntries ::
  "string store \<Rightarrow> ('k \<times> jsval) list \<Rightarrow> ('k \<Rightarrow> 'k self_view \<Rightarrow> jsval) \<Rightarrow>
   (string \<Rightarrow> 'k) \<Rightarrow> ('k \<Rightarrow> string) \<Rightarrow> string store \<times> 'k DefaultMap" where
  "DefaultMap_fromEntries s entries defaultValue' deserializeKey' serializeKey' =
     (let (s', r) = alloc_Map s (map (\<lambda>(key, value). (serializeKey' key, value)) entries)
      in (s', \<lparr>dm_internalMap =
                 \<lparr>internalMap = r, deserializeKey = deserializeKey',
                  serializeKey = serializeKey'\<rparr>,
               defaultValue = defaultValue',
               dm_name = None\<rparr>))"

definition DefaultMap_empty ::
  "string store \<Rightarrow> ('k \<Rightarrow> 'k self_view \<Rightarrow> jsval) \<Rightarrow> (string \<Rightarrow> 'k) \<Rightarrow> ('k \<Rightarrow> string) \<Rightarrow>
   string store \<times> 'k DefaultMap" where
  "DefaultMap_empty s defaultValue' deserializeKey' serializeKey' =
     DefaultMap_fromEntries s [] defaultValue' deserializeKey' serializeKey'"

definition DefaultMap_clear :: "string store \<Rightarrow> 'k DefaultMap \<Rightarrow> string store" where
  "DefaultMap_clear s m = Map_HashMap_clear s (dm_internalMap m)"

definition DefaultMap_delete ::
  "string store \<Rightarrow> 'k DefaultMap \<Rightarrow> 'k \<Rightarrow> 'k MissingKeyError + string store" where
  "DefaultMap_delete s m key = Map_HashMap_delete s (dm_internalMap m) key"

definition DefaultMap_deleteIfExists ::
  "string store \<Rightarrow> 'k DefaultMap \<Rightarrow> 'k \<Rightarrow> 'k MissingKeyError + (string store \<times> bool)" where
  "DefaultMap_deleteIfExists s m key = Map_HashMap_deleteIfExists s (dm_internalMap m) key"

definition DefaultMap_entries :: "string store \<Rightarrow> 'k DefaultMap \<Rightarrow> ('k \<times> jsval) list" where
  "DefaultMap_entries s m = Map_HashMap_entries s (dm_internalMap m)"

definition DefaultMap_has :: "string store \<Rightarrow> 'k DefaultMap \<Rightarrow> 'k \<Rightarrow> bool" where
  "DefaultMap_has s m key = Map_HashMap_has s (dm_internalMap m) key"

definition DefaultMap_set :: "string store \<Rightarrow> 'k DefaultMap \<Rightarrow> 'k \<Rightarrow> jsval \<Rightarrow> string store" where
  "DefaultMap_set s m key value = Map_HashMap_set s (dm_internalMap m) key value"

text \<open>
  \<open>get\<close> and \<open>getOr\<close> give back what they return, the store they leave and the keys with
  which they called \<open>defaultValue\<close>, in the order of the calls.
\<close>

definition DefaultMap_get ::
  "string store \<Rightarrow> 'k DefaultMap \<Rightarrow> 'k \<Rightarrow>
   ('k MissingKeyError + jsval) \<times> string store \<times> 'k list" where
  "DefaultMap_get s m key =
     (if \<not> DefaultMap_has s m key then
        (let defaultValue' = defaultValue m key (self_of s m)
         in (Inr defaultValue', DefaultMap_set s m key defaultValue', [key]))
      else (Map_HashMap_get s (dm_internalMap m) key, s, []))"

definition DefaultMap_getOr ::
  "string store \<Rightarrow> 'k DefaultMap \<Rightarrow> 'k \<Rightarrow> jsval \<Rightarrow> jsval \<times> string store \<times> 'k list" where
  "DefaultMap_getOr s m key defaultValue' =
     (Map_HashMap_getOr s (dm_internalMap m) key defaultValue', s, [])"

definition DefaultMap_keys :: "string store \<Rightarrow> 'k DefaultMap \<Rightarrow> 'k list" where
  "DefaultMap_keys s m = Map_HashMap_keys s (dm_internalMap m)"

definition DefaultMap_serializedKeys :: "string store \<Rightarrow> 'k DefaultMap \<Rightarrow> string list" where
  "DefaultMap_serializedKeys s m = Map_HashMap_serializedKeys s (dm_internalMap m)"

definition DefaultMap_values :: "string store \<Rightarrow> 'k DefaultMap \<Rightarrow> jsval list" where
  "DefaultMap_values s m = Map_HashMap_values s (dm_internalMap m)"

definition DefaultMap_iterator :: "string store \<Rightarrow> 'k DefaultMap \<Rightarrow> ('k \<times> jsval) list" where
  "DefaultMap_iterator s m = DefaultMap_entries s m"

definition DefaultMap_filter_run ::
  "string store \<Rightarrow> 'k DefaultMap \<Rightarrow> (jsval \<Rightarrow> 'k \<Rightarrow> nat \<Rightarrow> 'k DefaultMap \<Rightarrow> bool) \<Rightarrow>
   ('k \<times> jsval) list \<times> 'k filter_call list" where
  "DefaultMap_filter_run s m fn =
     filter_loop_index fn m (Map_HashMap_entries s (dm_internalMap m)) [] 0 []"

definition DefaultMap_filter ::
  "string store \<Rightarrow> 'k DefaultMap \<Rightarrow> (jsval \<Rightarrow> 'k \<Rightarrow> nat \<Rightarrow> 'k DefaultMap \<Rightarrow> bool) \<Rightarrow>
   string store \<times> 'k DefaultMap" where
  "DefaultMap_filter s m fn =
     DefaultMap_fromEntries s (fst (DefaultMap_filter_run s m fn)) (defaultValue m)
       (deserializeKey (dm_internalMap m)) (serializeKey (dm_internalMap m))"

definition DefaultMap_map ::
  "string store \<Rightarrow> 'k DefaultMap \<Rightarrow>
   (jsval \<Rightarrow> 'k \<Rightarrow> nat \<Rightarrow> 'k DefaultMap \<Rightarrow> 'k \<times> jsval) \<Rightarrow> string store \<times> 'k DefaultMap" where
  "DefaultMap_map s m fn =
     DefaultMap_fromEntries s
       (map_loop_index fn m (Map_HashMap_entries s (dm_internalMap m)) [] 0)
       (defaultValue m) (deserializeKey (dm_internalMap m)) (serializeKey (dm_internalMap m))"

definition DefaultMap_mapKeys ::
  "string store \<Rightarrow> 'k DefaultMap \<Rightarrow> ('k \<Rightarrow> jsval \<Rightarrow> nat \<Rightarrow> 'k DefaultMap \<Rightarrow> 'k) \<Rightarrow>
   string store \<times> 'k DefaultMap" where
  "DefaultMap_mapKeys s m fn =
     DefaultMap_fromEntries s
       (map_loop_index (\<lambda>value key index this. (fn key value index this, value)) m
          (Map_HashMap_entries s (dm_internalMap m)) [] 0)
       (defaultValue m) (deserializeKey (dm_internalMap m)) (serializeKey (dm_internalMap m))"

definition DefaultMap_mapValues ::
  "string store \<Rightarrow> 'k DefaultMap \<Rightarrow> (jsval \<Rightarrow> 'k \<Rightarrow> nat \<Rightarrow> 'k DefaultMap \<Rightarrow> jsval) \<Rightarrow>
   string store \<times> 'k DefaultMap" where
  "DefaultMap_mapValues s m fn =
     DefaultMap_fromEntries s
       (map_loop_index (\<lambda>value key index this. (key, fn value key index this)) m
          (Map_HashMap_entries s (dm_internalMap m)) [] 0)
       (defaultValue m) (deserializeKey (dm_internalMap m)) (serializeKey (dm_internalMap m))"

section \<open>Scenarios\<close>

text \<open>
  The maps of the repository's tests and documentation, as concrete stores: the numbers
  \<open>1\<close> to \<open>4\<close> under their English names in a HashMap with the identity hash; dates
  (an object reference and a calendar day) hashed by their day; words in a HashMap and a
  DefaultMap whose serialized keys carry a leading \<open>#\<close>; and a HashMap whose
  \<open>deserializeKey\<close> forgets the key.
\<close>

definition numbers :: "nat store \<times> (nat, nat) HashMap" where
  "numbers =
     HashMap_fromEntries empty_store
       [(1, JStr ''one''), (2, JStr ''two''), (3, JStr ''three''), (4, JStr ''four'')] None"

definition toISODateString :: "nat \<times> string \<Rightarrow> string" where
  "toISODateString date = snd date"

definition dates :: "string store \<times> (nat \<times> string, string) HashMap" where
  "dates = HashMap_emptyWithCustomHash empty_store toISODateString (Some ''dates'')"

definition tag :: "string \<Rightarrow> string" where
  "tag key = CHR ''#'' # key"

definition untag :: "string \<Rightarrow> string" where
  "untag key = tl key"

definition words :: "string store \<times> string Map_HashMap" where
  "words = Map_HashMap_fromEntries empty_store [(''a'', JNum 1), (''b'', JNum 2)] untag tag"

definition forgetful :: "string store \<times> string Map_HashMap" where
  "forgetful =
     Map_HashMap_fromEntries empty_store [(''a'', JNum 1), (''b'', JNum 2)] (\<lambda>key. ''x'') tag"

definition zero :: "string \<Rightarrow> string self_view \<Rightarrow> jsval" where
  "zero key self = JNum 0"

definition scores :: "string store \<times> string DefaultMap" where
  "scores = DefaultMap_fromEntries empty_store [(''a'', JNum 1), (''b'', JNum 2)] zero untag tag"

definition named_scores :: "string DefaultMap" where
  "named_scores = (snd scores)\<lparr>dm_name := Some ''scores''\<rparr>"

definition keep_all :: "jsval \<Rightarrow> 'a \<Rightarrow> nat \<Rightarrow> 'm \<Rightarrow> bool" where
  "keep_all value key index original = True"

definition second_only :: "jsval \<Rightarrow> 'a \<Rightarrow> nat \<Rightarrow> 'm \<Rightarrow> bool" where
  "second_only value key index original = (index = 1)"

definition long_name :: "jsval \<Rightarrow> 'a \<Rightarrow> nat \<Rightarrow> 'm \<Rightarrow> bool" where
  "long_name value key index original = (case value of JStr x \<Rightarrow> 3 < length x | _ \<Rightarrow> False)"

section \<open>Facts about the built-in Map\<close>

lemma Map_has_iff: "Map_has m k \<longleftrightarrow> k \<in> fst ` set m"
  by (induction m) auto

lemma Map_get_absent: "\<not> Map_has m k \<Longrightarrow> Map_get m k = JUndefined"
  by (induction m) auto

lemma Map_has_set: "Map_has (Map_set m k v) k' \<longleftrightarrow> k' = k \<or> Map_has m k'"
  by (induction m) (auto split: if_splits)

lemma Map_get_set: "Map_get (Map_set m k v) k' = (if k' = k then v else Map_get m k')"
  by (induction m) auto

lemma Map_has_delete: "Map_has (Map_delete m k) k' \<longleftrightarrow> k' \<noteq> k \<and> Map_has m k'"
  by (induction m) (auto split: if_splits)

lemma Map_get_delete: "Map_get (Map_delete m k) k' = (if k' = k then JUndefined else Map_get m k')"
  by (induction m) auto

lemma Map_delete_filter: "Map_delete m k = filter (\<lambda>e. fst e \<noteq> k) m"
  by (induction m) auto

lemma Map_delete_absent: "\<not> Map_has m k \<Longrightarrow> Map_delete m k = m"
  by (induction m) auto

lemma Map_set_absent: "\<not> Map_has m k \<Longrightarrow> Map_set m k v = m @ [(k, v)]"
  by (induction m) auto

lemma Map_set_present_keys: "Map_has m k \<Longrightarrow> map fst (Map_set m k v) = map fst m"
  by (induction m) auto

lemma Map_get_entry: "Map_wf m \<Longrightarrow> (k, v) \<in> set m \<Longrightarrow> Map_get m k = v"
  by (induction m) (auto simp: Map_wf_def rev_image_eqI)

lemma Map_wf_set: "Map_wf m \<Longrightarrow> Map_wf (Map_set m k v)"
  by (induction m) (auto simp: Map_wf_def Map_has_iff[symmetric] Map_has_set)

lemma Map_wf_delete: "Map_wf m \<Longrightarrow> Map_wf (Map_delete m k)"
  by (induction m) (auto simp: Map_wf_def Map_has_iff[symmetric] Map_has_delete)

lemma Map_wf_from: "Map_wf m \<Longrightarrow> Map_wf (Map_from m entries)"
  by (induction m entries rule: Map_from.induct) (auto simp: Map_wf_set)

lemma Map_wf_new_Map: "Map_wf (new_Map entries)"
  using Map_wf_from[of "[]" entries] by (simp add: new_Map_def Map_wf_def)

lemma Map_from_distinct:
  "distinct (map fst entries) \<Longrightarrow> (\<forall>e \<in> set entries. \<not> Map_has m (fst e)) \<Longrightarrow>
   Map_from m entries = m @ entries"
proof (induction m entries rule: Map_from.induct)
  case (1 m)
  then show ?case by simp
next
  case (2 m k v entries)
  have "Map_set m k v = m @ [(k, v)]" using 2(3) by (simp add: Map_set_absent)
  moreover have "\<forall>e\<in>set entries. \<not> Map_has (Map_set m k v) (fst e)"
    using 2(2,3) by (auto simp: Map_has_set)
  ultimately show ?case using 2 by simp
qed

lemma new_Map_wf: "Map_wf entries \<Longrightarrow> new_Map entries = entries"
  by (simp add: new_Map_def Map_wf_def Map_from_distinct)

section \<open>Facts about the store and the scenarios\<close>

lemma maps_write_Map: "maps (write_Map s r m) r' = (if r' = r then m else maps s r')"
  by (simp add: write_Map_def)

lemma fresh_write_Map: "fresh (write_Map s r m) = fresh s"
  by (simp add: write_Map_def)

lemma HashMap_entries_eq: "HashMap_entries s m = maps s (p_map m)"
  by (simp add: HashMap_entries_def)

lemma Map_HashMap_zip:
  "zip (Map_HashMap_serializedKeys s m) (Map_HashMap_values s m) = maps s (internalMap m)"
  by (simp add: Map_HashMap_serializedKeys_def Map_HashMap_values_def zip_map_fst_snd)

lemma numbers_eq:
  "numbers =
     (\<lparr>maps = (\<lambda>r. [])(0 := [(1, JStr ''one''), (2, JStr ''two''), (3, JStr ''three''),
                              (4, JStr ''four'')]),
       fresh = 1\<rparr>,
      \<lparr>hash = id, p_map = 0, name = ''unknown''\<rparr>)"
  by (simp add: numbers_def HashMap_fromEntries_def alloc_Map_def new_Map_def empty_store_def
      new_HashMap_def)

lemma dates_eq:
  "dates =
     (\<lparr>maps = (\<lambda>r. [])(0 := []), fresh = 1\<rparr>,
      \<lparr>hash = toISODateString, p_map = 0, name = ''dates''\<rparr>)"
  by (simp add: dates_def HashMap_emptyWithCustomHash_def alloc_Map_def new_Map_def
      empty_store_def new_HashMap_def)

lemma words_eq:
  "words =
     (\<lparr>maps = (\<lambda>r. [])(0 := [(''#a'', JNum 1), (''#b'', JNum 2)]), fresh = 1\<rparr>,
      \<lparr>internalMap = 0, deserializeKey = untag, serializeKey = tag\<rparr>)"
  by (simp add: words_def Map_HashMap_fromEntries_def alloc_Map_def new_Map_def
      empty_store_def tag_def)

lemma scores_eq:
  "scores =
     (\<lparr>maps = (\<lambda>r. [])(0 := [(''#a'', JNum 1), (''#b'', JNum 2)]), fresh = 1\<rparr>,
      \<lparr>dm_internalMap = \<lparr>internalMap = 0, deserializeKey = untag, serializeKey = tag\<rparr>,
       defaultValue = zero, dm_name = None\<rparr>)"
  by (simp add: scores_def DefaultMap_fromEntries_def alloc_Map_def new_Map_def
      empty_store_def tag_def)

lemmas store_simps = write_Map_def alloc_Map_def new_Map_def empty_store_def
lemmas HashMap_simps = hashKey_def HashMap_has_def HashMap_get_def HashMap_getOr_def
  HashMap_set_def HashMap_entries_def HashMap_keys_def HashMap_values_def HashMap_delete_def
  HashMap_deleteIfExists_def HashMap_clear_def HashMap_iterator_def
lemmas Map_HashMap_simps = Map_HashMap_has_def Map_HashMap_get_def Map_HashMap_getOr_def
  Map_HashMap_set_def Map_HashMap_entries_def Map_HashMap_keys_def Map_HashMap_values_def
  Map_HashMap_serializedKeys_def Map_HashMap_delete_def Map_HashMap_deleteIfExists_def
  Map_HashMap_clear_def Map_HashMap_iterator_def
lemmas DefaultMap_simps = DefaultMap_has_def DefaultMap_get_def DefaultMap_getOr_def
  DefaultMap_set_def DefaultMap_entries_def DefaultMap_keys_def DefaultMap_values_def
  DefaultMap_serializedKeys_def DefaultMap_delete_def DefaultMap_deleteIfExists_def
  DefaultMap_clear_def DefaultMap_iterator_def self_of_def

section \<open>Falsy values\<close>

text \<open>
  Claim C2. In each of the three maps, a key whose stored value is falsy is present for
  \<open>has\<close>, and yet \<open>get\<close> raises the missing-key error for it and \<open>getOr\<close> returns
  the fallback: both decide on the truthiness of the value they looked up. The stored
  value of a key is the one listed with its storage key among the entries. For a
  DefaultMap the error comes from the internal HashMap; nothing is stored and
  \<open>defaultValue\<close> is not called.
\<close>

theorem C2_falsy_value_reads_as_absent:
  "(Map_wf (maps s (p_map m)) \<and> (hashKey m k, v) \<in> set (HashMap_entries s m) \<and> \<not> truthy v \<longrightarrow>
      HashMap_has s m k \<and>
      HashMap_get s m k = Inl (HashMapMissingKeyError m k) \<and>
      HashMap_getOr s m k d = d) \<and>
   (Map_wf (maps s2 (internalMap m2)) \<and>
    (serializeKey m2 k2, v2) \<in>
       set (zip (Map_HashMap_serializedKeys s2 m2) (Map_HashMap_values s2 m2)) \<and>
    \<not> truthy v2 \<longrightarrow>
      Map_HashMap_has s2 m2 k2 \<and>
      Map_HashMap_get s2 m2 k2 = Inl (MissingKeyError m2 k2) \<and>
      Map_HashMap_getOr s2 m2 k2 d = d) \<and>
   (Map_wf (maps s3 (internalMap (dm_internalMap m3))) \<and>
    (serializeKey (dm_internalMap m3) k3, v3) \<in>
       set (zip (DefaultMap_serializedKeys s3 m3) (DefaultMap_values s3 m3)) \<and>
    \<not> truthy v3 \<longrightarrow>
      DefaultMap_has s3 m3 k3 \<and>
      DefaultMap_get s3 m3 k3 = (Inl (MissingKeyError (dm_internalMap m3) k3), s3, []) \<and>
      DefaultMap_getOr s3 m3 k3 d = (d, s3, []))"
proof (intro conjI impI)
  assume a: "Map_wf (maps s (p_map m)) \<and> (hashKey m k, v) \<in> set (HashMap_entries s m) \<and> \<not> truthy v"
  then have g: "Map_get (maps s (p_map m)) (hashKey m k) = v"
    by (simp add: HashMap_entries_eq Map_get_entry)
  show "HashMap_has s m k"
    using a by (force simp: HashMap_has_def Map_has_iff HashMap_entries_eq)
  show "HashMap_get s m k = Inl (HashMapMissingKeyError m k)"
    using a g by (simp add: HashMap_get_def)
  show "HashMap_getOr s m k d = d"
    using a g by (simp add: HashMap_getOr_def)
next
  assume a: "Map_wf (maps s2 (internalMap m2)) \<and>
    (serializeKey m2 k2, v2) \<in>
       set (zip (Map_HashMap_serializedKeys s2 m2) (Map_HashMap_values s2 m2)) \<and>
    \<not> truthy v2"
  then have g: "Map_get (maps s2 (internalMap m2)) (serializeKey m2 k2) = v2"
    by (simp add: Map_HashMap_zip Map_get_entry)
  show "Map_HashMap_has s2 m2 k2"
    using a by (force simp: Map_HashMap_has_def Map_has_iff Map_HashMap_zip)
  show "Map_HashMap_get s2 m2 k2 = Inl (MissingKeyError m2 k2)"
    using a g by (simp add: Map_HashMap_get_def)
  show "Map_HashMap_getOr s2 m2 k2 d = d"
    using a g by (simp add: Map_HashMap_getOr_def)
next
  assume a: "Map_wf (maps s3 (internalMap (dm_internalMap m3))) \<and>
    (serializeKey (dm_internalMap m3) k3, v3) \<in>
       set (zip (DefaultMap_serializedKeys s3 m3) (DefaultMap_values s3 m3)) \<and>
    \<not> truthy v3"
  then have g: "Map_get (maps s3 (internalMap (dm_internalMap m3)))
                  (serializeKey (dm_internalMap m3) k3) = v3"
    by (simp add: DefaultMap_serializedKeys_def DefaultMap_values_def Map_HashMap_zip
        Map_get_entry)
  show h: "DefaultMap_has s3 m3 k3"
    using a by (force simp: DefaultMap_has_def Map_HashMap_has_def Map_has_iff
        DefaultMap_serializedKeys_def DefaultMap_values_def Map_HashMap_zip)
  show "DefaultMap_get s3 m3 k3 = (Inl (MissingKeyError (dm_internalMap m3) k3), s3, [])"
    using a g h by (simp add: DefaultMap_get_def Map_HashMap_get_def)
  show "DefaultMap_getOr s3 m3 k3 d = (d, s3, [])"
    using a g by (simp add: DefaultMap_getOr_def Map_HashMap_getOr_def)
qed

theorem C2_falsy_value_reads_as_absent_witness:
  "(let m = snd numbers; s = HashMap_set (fst numbers) m 5 (JNum 0)
    in Map_wf (maps s (p_map m)) \<and> (hashKey m 5, JNum 0) \<in> set (HashMap_entries s m) \<and>
       \<not> truthy (JNum 0) \<and> HashMap_has s m 5 \<and>
       HashMap_get s m 5 = Inl (HashMapMissingKeyError m 5) \<and>
       HashMap_getOr s m 5 (JNum 9) = JNum 9) \<and>
   (let m = snd words; s = Map_HashMap_set (fst words) m ''c'' (JStr '''')
    in Map_wf (maps s (internalMap m)) \<and>
       (serializeKey m ''c'', JStr '''') \<in>
          set (zip (Map_HashMap_serializedKeys s m) (Map_HashMap_values s m)) \<and>
       \<not> truthy (JStr '''') \<and> Map_HashMap_has s m ''c'' \<and>
       Map_HashMap_get s m ''c'' = Inl (MissingKeyError m ''c'') \<and>
       Map_HashMap_getOr s m ''c'' (JNum 9) = JNum 9) \<and>
   (let m = snd scores; s = DefaultMap_set (fst scores) m ''c'' (JBool False)
    in Map_wf (maps s (internalMap (dm_internalMap m))) \<and>
       (serializeKey (dm_internalMap m) ''c'', JBool False) \<in>
          set (zip (DefaultMap_serializedKeys s m) (DefaultMap_values s m)) \<and>
       \<not> truthy (JBool False) \<and> DefaultMap_has s m ''c'' \<and>
       DefaultMap_get s m ''c'' = (Inl (MissingKeyError (dm_internalMap m) ''c''), s, []) \<and>
       DefaultMap_getOr s m ''c'' (JNum 9) = (JNum 9, s, []))"
proof -
  define m1 where "m1 = snd numbers"
  define s1 where "s1 = HashMap_set (fst numbers) m1 5 (JNum 0)"
  define m2 where "m2 = snd words"
  define s2 where "s2 = Map_HashMap_set (fst words) m2 ''c'' (JStr '''')"
  define m3 where "m3 = snd scores"
  define s3 where "s3 = DefaultMap_set (fst scores) m3 ''c'' (JBool False)"
  have h1: "Map_wf (maps s1 (p_map m1)) \<and> (hashKey m1 5, JNum 0) \<in> set (HashMap_entries s1 m1) \<and>
       \<not> truthy (JNum 0)"
    by (simp add: s1_def m1_def numbers_eq HashMap_simps store_simps Map_wf_def)
  have h2: "Map_wf (maps s2 (internalMap m2)) \<and>
       (serializeKey m2 ''c'', JStr '''') \<in>
          set (zip (Map_HashMap_serializedKeys s2 m2) (Map_HashMap_values s2 m2)) \<and>
       \<not> truthy (JStr '''')"
    by (simp add: s2_def m2_def words_eq Map_HashMap_simps store_simps Map_wf_def tag_def)
  have h3: "Map_wf (maps s3 (internalMap (dm_internalMap m3))) \<and>
       (serializeKey (dm_internalMap m3) ''c'', JBool False) \<in>
          set (zip (DefaultMap_serializedKeys s3 m3) (DefaultMap_values s3 m3)) \<and>
       \<not> truthy (JBool False)"
    by (simp add: s3_def m3_def scores_eq DefaultMap_simps Map_HashMap_simps store_simps
        Map_wf_def tag_def)
  note t = C2_falsy_value_reads_as_absent
    [of s1 m1 5 "JNum 0" "JNum 9" s2 m2 "''c''" "JStr ''''" s3 m3 "''c''" "JBool False"]
  from t h1 h2 h3 show ?thesis
    unfolding Let_def m1_def[symmetric] s1_def[symmetric] m2_def[symmetric]
      s2_def[symmetric] m3_def[symmetric] s3_def[symmetric]
    by blast
qed

section \<open>Reading after writing\<close>

lemma HashMap_has_keys: "HashMap_has s m k \<longleftrightarrow> hashKey m k \<in> set (HashMap_keys s m)"
  by (simp add: HashMap_has_def HashMap_keys_def Map_has_iff)

lemma Map_HashMap_has_keys:
  "Map_HashMap_has s m k \<longleftrightarrow> serializeKey m k \<in> set (Map_HashMap_serializedKeys s m)"
  by (simp add: Map_HashMap_has_def Map_HashMap_serializedKeys_def Map_has_iff)

lemma DefaultMap_has_keys:
  "DefaultMap_has s m k \<longleftrightarrow>
   serializeKey (dm_internalMap m) k \<in> set (DefaultMap_serializedKeys s m)"
  by (simp add: DefaultMap_has_def DefaultMap_serializedKeys_def Map_HashMap_has_keys)

lemma HashMap_has_set:
  "HashMap_has (HashMap_set s m k v) m k' \<longleftrightarrow> hashKey m k' = hashKey m k \<or> HashMap_has s m k'"
  by (simp add: HashMap_has_def HashMap_set_def maps_write_Map Map_has_set)

lemma Map_HashMap_has_set:
  "Map_HashMap_has (Map_HashMap_set s m k v) m k' \<longleftrightarrow>
   serializeKey m k' = serializeKey m k \<or> Map_HashMap_has s m k'"
  by (simp add: Map_HashMap_has_def Map_HashMap_set_def maps_write_Map Map_has_set)

lemma DefaultMap_has_set:
  "DefaultMap_has (DefaultMap_set s m k v) m k' \<longleftrightarrow>
   serializeKey (dm_internalMap m) k' = serializeKey (dm_internalMap m) k \<or> DefaultMap_has s m k'"
  by (simp add: DefaultMap_has_def DefaultMap_set_def Map_HashMap_has_set)

lemma HashMap_get_set:
  "hashKey m k' = hashKey m k \<Longrightarrow>
   HashMap_get (HashMap_set s m k v) m k' =
     (if truthy v then Inr v else Inl (HashMapMissingKeyError m k'))"
  by (simp add: HashMap_get_def HashMap_set_def maps_write_Map Map_get_set)

lemma Map_HashMap_get_set:
  "serializeKey m k' = serializeKey m k \<Longrightarrow>
   Map_HashMap_get (Map_HashMap_set s m k v) m k' =
     (if truthy v then Inr v else Inl (MissingKeyError m k'))"
  by (simp add: Map_HashMap_get_def Map_HashMap_set_def maps_write_Map Map_get_set)

lemma DefaultMap_get_set:
  "serializeKey (dm_internalMap m) k' = serializeKey (dm_internalMap m) k \<Longrightarrow>
   DefaultMap_get (DefaultMap_set s m k v) m k' =
     ((if truthy v then Inr v else Inl (MissingKeyError (dm_internalMap m) k')),
      DefaultMap_set s m k v, [])"
proof -
  assume e: "serializeKey (dm_internalMap m) k' = serializeKey (dm_internalMap m) k"
  have h: "DefaultMap_has (DefaultMap_set s m k v) m k'"
    using e by (simp add: DefaultMap_has_set)
  have g: "Map_HashMap_get (DefaultMap_set s m k v) (dm_internalMap m) k' =
             (if truthy v then Inr v else Inl (MissingKeyError (dm_internalMap m) k'))"
    using e by (simp add: DefaultMap_set_def Map_HashMap_get_set)
  show ?thesis
    unfolding DefaultMap_get_def using h g by simp
qed

lemma DefaultMap_get_absent:
  "\<not> DefaultMap_has s m k \<Longrightarrow>
   DefaultMap_get s m k =
     (Inr (defaultValue m k (self_of s m)),
      DefaultMap_set s m k (defaultValue m k (self_of s m)), [k])"
  by (simp add: DefaultMap_get_def Let_def)

lemma DefaultMap_get_again:
  "\<not> DefaultMap_has s m k \<Longrightarrow> truthy (defaultValue m k (self_of s m)) \<Longrightarrow>
   DefaultMap_get (fst (snd (DefaultMap_get s m k))) m k =
     (fst (DefaultMap_get s m k), fst (snd (DefaultMap_get s m k)), [])"
  by (simp add: DefaultMap_get_absent DefaultMap_get_set)

text \<open>
  Claim C1. After \<open>set(k, v)\<close> the key is present, but \<open>get(k)\<close> returns \<open>v\<close> only for
  a truthy \<open>v\<close> (\<open>HashMap_get_set\<close>, \<open>Map_HashMap_get_set\<close>, \<open>DefaultMap_get_set\<close>). For
  the values \<open>0\<close>, the empty string and \<open>false\<close>, stored under a new key of each of the
  three maps, \<open>has\<close> answers true and \<open>get\<close> raises the missing-key error.
\<close>

theorem C1_get_after_set_of_falsy_value:
  "(let m = snd numbers; s = HashMap_set (fst numbers) m 5 (JNum 0)
    in HashMap_has s m 5 \<and> HashMap_get s m 5 = Inl (HashMapMissingKeyError m 5)) \<and>
   (let m = snd words; s = Map_HashMap_set (fst words) m ''c'' (JStr '''')
    in Map_HashMap_has s m ''c'' \<and> Map_HashMap_get s m ''c'' = Inl (MissingKeyError m ''c'')) \<and>
   (let m = snd scores; s = DefaultMap_set (fst scores) m ''c'' (JBool False)
    in DefaultMap_has s m ''c'' \<and>
       fst (DefaultMap_get s m ''c'') = Inl (MissingKeyError (dm_internalMap m) ''c''))"
  by (simp add: Let_def HashMap_has_set HashMap_get_set Map_HashMap_has_set Map_HashMap_get_set
      DefaultMap_has_set DefaultMap_get_set)

text \<open>
  Claim C6. Two keys with the same hash address one entry: \<open>has\<close> and \<open>get\<close> of the
  second see what \<open>set\<close> stored under the first (\<open>HashMap_has_set\<close>, \<open>HashMap_get_set\<close>).
  Two date objects of the same day: the value \<open>1\<close> stored under the first is read back
  under the second; the value \<open>0\<close> stored under the first is present under the second,
  and \<open>get\<close> of the second raises the missing-key error.
\<close>

theorem C6_same_hash_falsy_value:
  "(let m = snd dates; k1 = (1, ''2020-01-01''); k2 = (2, ''2020-01-01'')
    in k1 \<noteq> k2 \<and> hashKey m k1 = hashKey m k2 \<and>
       HashMap_get (HashMap_set (fst dates) m k1 (JNum 1)) m k2 = Inr (JNum 1) \<and>
       HashMap_has (HashMap_set (fst dates) m k1 (JNum 0)) m k2 \<and>
       HashMap_get (HashMap_set (fst dates) m k1 (JNum 0)) m k2 =
         Inl (HashMapMissingKeyError m k2))"
proof -
  have h: "hashKey (snd dates) (1, ''2020-01-01'') = hashKey (snd dates) (2, ''2020-01-01'')"
    by (simp add: dates_eq hashKey_def toISODateString_def)
  show ?thesis
    using h by (simp add: Let_def HashMap_has_set HashMap_get_set)
qed

section \<open>Absent keys\<close>

text \<open>
  Claim C4, as the claim states it for every map: in the DefaultMap of the scores the key
  \<open>x\<close> is absent, and \<open>get\<close> of it does not raise: it returns the default \<open>0\<close>.
\<close>

theorem C4_DefaultMap_get_of_absent_key:
  "\<not> DefaultMap_has (fst scores) (snd scores) ''x'' \<and>
   fst (DefaultMap_get (fst scores) (snd scores) ''x'') = Inr (JNum 0) \<and>
   fst (DefaultMap_get (fst scores) (snd scores) ''x'') \<noteq>
     Inl (MissingKeyError (dm_internalMap (snd scores)) ''x'')"
proof -
  have a: "\<not> DefaultMap_has (fst scores) (snd scores) ''x''"
    by (simp add: scores_eq DefaultMap_has_def Map_HashMap_has_def tag_def)
  have d: "defaultValue (snd scores) ''x'' (self_of (fst scores) (snd scores)) = JNum 0"
    by (simp add: scores_eq zero_def)
  show ?thesis
    using a d by (simp add: DefaultMap_get_absent)
qed

text \<open>
  Claim C4, amended. In both HashMap classes a key whose storage key is not among the
  stored keys makes \<open>get\<close> raise the missing-key error that carries the key and the map,
  \<open>getOr\<close> return the fallback and \<open>has\<close> answer false. In a DefaultMap \<open>getOr\<close> returns
  the fallback and \<open>has\<close> answers false, and \<open>get\<close> returns the computed default.
\<close>

theorem C4_absent_key:
  "(hashKey m k \<notin> set (HashMap_keys s m) \<longrightarrow>
      HashMap_get s m k = Inl (HashMapMissingKeyError m k) \<and>
      HashMap_getOr s m k d = d \<and>
      \<not> HashMap_has s m k) \<and>
   (serializeKey m2 k2 \<notin> set (Map_HashMap_serializedKeys s2 m2) \<longrightarrow>
      Map_HashMap_get s2 m2 k2 = Inl (MissingKeyError m2 k2) \<and>
      Map_HashMap_getOr s2 m2 k2 d = d \<and>
      \<not> Map_HashMap_has s2 m2 k2) \<and>
   (serializeKey (dm_internalMap m3) k3 \<notin> set (DefaultMap_serializedKeys s3 m3) \<longrightarrow>
      fst (DefaultMap_get s3 m3 k3) = Inr (defaultValue m3 k3 (self_of s3 m3)) \<and>
      fst (DefaultMap_getOr s3 m3 k3 d) = d \<and>
      \<not> DefaultMap_has s3 m3 k3)"
proof (intro conjI impI)
  assume "hashKey m k \<notin> set (HashMap_keys s m)"
  then have a: "\<not> HashMap_has s m k"
    by (simp add: HashMap_has_keys)
  then have u: "Map_get (maps s (p_map m)) (hashKey m k) = JUndefined"
    by (simp add: HashMap_has_def Map_get_absent)
  show "\<not> HashMap_has s m k" by (rule a)
  show "HashMap_get s m k = Inl (HashMapMissingKeyError m k)"
    by (simp add: HashMap_get_def u)
  show "HashMap_getOr s m k d = d"
    by (simp add: HashMap_getOr_def u)
next
  assume "serializeKey m2 k2 \<notin> set (Map_HashMap_serializedKeys s2 m2)"
  then have a: "\<not> Map_HashMap_has s2 m2 k2"
    by (simp add: Map_HashMap_has_keys)
  then have u: "Map_get (maps s2 (internalMap m2)) (serializeKey m2 k2) = JUndefined"
    by (simp add: Map_HashMap_has_def Map_get_absent)
  show "\<not> Map_HashMap_has s2 m2 k2" by (rule a)
  show "Map_HashMap_get s2 m2 k2 = Inl (MissingKeyError m2 k2)"
    by (simp add: Map_HashMap_get_def u)
  show "Map_HashMap_getOr s2 m2 k2 d = d"
    by (simp add: Map_HashMap_getOr_def u)
next
  assume "serializeKey (dm_internalMap m3) k3 \<notin> set (DefaultMap_serializedKeys s3 m3)"
  then have a: "\<not> DefaultMap_has s3 m3 k3"
    by (simp add: DefaultMap_has_keys)
  then have u: "Map_get (maps s3 (internalMap (dm_internalMap m3)))
                  (serializeKey (dm_internalMap m3) k3) = JUndefined"
    by (simp add: DefaultMap_has_def Map_HashMap_has_def Map_get_absent)
  show "\<not> DefaultMap_has s3 m3 k3" by (rule a)
  show "fst (DefaultMap_get s3 m3 k3) = Inr (defaultValue m3 k3 (self_of s3 m3))"
    using a by (simp add: DefaultMap_get_absent)
  show "fst (DefaultMap_getOr s3 m3 k3 d) = d"
    by (simp add: DefaultMap_getOr_def Map_HashMap_getOr_def u)
qed

theorem C4_absent_key_witness:
  "(let s = fst numbers; m = snd numbers
    in hashKey m 9 \<notin> set (HashMap_keys s m) \<and>
       HashMap_get s m 9 = Inl (HashMapMissingKeyError m 9) \<and>
       error_key (HashMapMissingKeyError m 9) = 9 \<and>
       HashMap_getOr s m 9 (JStr ''none'') = JStr ''none'' \<and>
       \<not> HashMap_has s m 9) \<and>
   (let s = fst words; m = snd words
    in serializeKey m ''z'' \<notin> set (Map_HashMap_serializedKeys s m) \<and>
       Map_HashMap_get s m ''z'' = Inl (MissingKeyError m ''z'') \<and>
       Map_HashMap_getOr s m ''z'' (JStr ''none'') = JStr ''none'' \<and>
       \<not> Map_HashMap_has s m ''z'') \<and>
   (let s = fst scores; m = snd scores
    in serializeKey (dm_internalMap m) ''z'' \<notin> set (DefaultMap_serializedKeys s m) \<and>
       fst (DefaultMap_get s m ''z'') = Inr (JNum 0) \<and>
       fst (DefaultMap_getOr s m ''z'' (JStr ''none'')) = JStr ''none'' \<and>
       \<not> DefaultMap_has s m ''z'')"
proof -
  have h1: "hashKey (snd numbers) 9 \<notin> set (HashMap_keys (fst numbers) (snd numbers))"
    by (simp add: numbers_eq hashKey_def HashMap_keys_def)
  have h2: "serializeKey (snd words) ''z'' \<notin>
              set (Map_HashMap_serializedKeys (fst words) (snd words))"
    by (simp add: words_eq Map_HashMap_serializedKeys_def tag_def)
  have h3: "serializeKey (dm_internalMap (snd scores)) ''z'' \<notin>
              set (DefaultMap_serializedKeys (fst scores) (snd scores))"
    by (simp add: scores_eq DefaultMap_serializedKeys_def Map_HashMap_serializedKeys_def tag_def)
  have d: "defaultValue (snd scores) ''z'' (self_of (fst scores) (snd scores)) = JNum 0"
    by (simp add: scores_eq zero_def)
  note t = C4_absent_key[of "snd numbers" 9 "fst numbers" "JStr ''none''"
      "snd words" "''z''" "fst words" "snd scores" "''z''" "fst scores"]
  from t h1 h2 h3 d show ?thesis
    by (simp add: Let_def)
qed

section \<open>The default of a DefaultMap\<close>

text \<open>
  Claim C3. The first \<open>get\<close> of an absent key calls \<open>defaultValue\<close> once with the key,
  stores the result and returns it (\<open>DefaultMap_get_absent\<close>), and a second \<open>get\<close> returns
  it again without a call when it is truthy (\<open>DefaultMap_get_again\<close>). With the default
  \<open>0\<close>: the first \<open>get\<close> of the absent key \<open>x\<close> returns \<open>0\<close> and stores it after one call,
  and the second \<open>get\<close> raises the missing-key error of the internal HashMap.
\<close>

theorem C3_second_get_of_falsy_default:
  "(let m = snd scores; s = fst scores; s1 = DefaultMap_set s m ''x'' (JNum 0)
    in \<not> DefaultMap_has s m ''x'' \<and>
       DefaultMap_get s m ''x'' = (Inr (JNum 0), s1, [''x'']) \<and>
       DefaultMap_has s1 m ''x'' \<and>
       DefaultMap_get s1 m ''x'' = (Inl (MissingKeyError (dm_internalMap m) ''x''), s1, []))"
proof -
  have a: "\<not> DefaultMap_has (fst scores) (snd scores) ''x''"
    by (simp add: scores_eq DefaultMap_has_def Map_HashMap_has_def tag_def)
  have d: "defaultValue (snd scores) ''x'' (self_of (fst scores) (snd scores)) = JNum 0"
    by (simp add: scores_eq zero_def)
  show ?thesis
    using a d by (simp add: Let_def DefaultMap_get_absent DefaultMap_has_set DefaultMap_get_set)
qed

text \<open>
  Claim C10. For a key absent from a DefaultMap, \<open>getOr\<close> returns the fallback, leaves
  the store as it was, so that the key is still absent, and makes no call of
  \<open>defaultValue\<close>; \<open>get\<close> of the same key leaves the key present after one call.
\<close>

theorem C10_getOr_does_not_materialize:
  "\<not> DefaultMap_has s m k \<Longrightarrow>
   DefaultMap_getOr s m k d = (d, s, []) \<and>
   \<not> DefaultMap_has (fst (snd (DefaultMap_getOr s m k d))) m k \<and>
   DefaultMap_has (fst (snd (DefaultMap_get s m k))) m k \<and>
   snd (snd (DefaultMap_get s m k)) = [k]"
proof -
  assume a: "\<not> DefaultMap_has s m k"
  then have u: "Map_get (maps s (internalMap (dm_internalMap m)))
                  (serializeKey (dm_internalMap m) k) = JUndefined"
    by (simp add: DefaultMap_has_def Map_HashMap_has_def Map_get_absent)
  have g: "DefaultMap_getOr s m k d = (d, s, [])"
    using u by (simp add: DefaultMap_getOr_def Map_HashMap_getOr_def)
  show ?thesis
    using a by (simp add: g DefaultMap_get_absent DefaultMap_has_set)
qed

theorem C10_getOr_does_not_materialize_witness:
  "\<not> DefaultMap_has (fst scores) (snd scores) ''x'' \<and>
   DefaultMap_getOr (fst scores) (snd scores) ''x'' (JNum 9) = (JNum 9, fst scores, []) \<and>
   \<not> DefaultMap_has (fst (snd (DefaultMap_getOr (fst scores) (snd scores) ''x'' (JNum 9))))
        (snd scores) ''x'' \<and>
   DefaultMap_has (fst (snd (DefaultMap_get (fst scores) (snd scores) ''x''))) (snd scores) ''x'' \<and>
   snd (snd (DefaultMap_get (fst scores) (snd scores) ''x'')) = [''x'']"
proof -
  have a: "\<not> DefaultMap_has (fst scores) (snd scores) ''x''"
    by (simp add: scores_eq DefaultMap_has_def Map_HashMap_has_def tag_def)
  from a C10_getOr_does_not_materialize[OF a, of "JNum 9"] show ?thesis by blast
qed

section \<open>Deleting\<close>

lemma HashMap_delete_present:
  "HashMap_has s m k \<Longrightarrow>
   HashMap_delete s m k =
     Inr (write_Map s (p_map m) (filter (\<lambda>e. fst e \<noteq> hashKey m k) (maps s (p_map m))))"
  by (simp add: HashMap_delete_def Map_delete_filter hashKey_def)

lemma Map_HashMap_delete_present:
  "Map_HashMap_has s m k \<Longrightarrow>
   Map_HashMap_delete s m k =
     Inr (write_Map s (internalMap m)
            (filter (\<lambda>e. fst e \<noteq> serializeKey m k) (maps s (internalMap m))))"
  by (simp add: Map_HashMap_delete_def Map_delete_filter)

lemma Map_has_filter_out: "\<not> Map_has (filter (\<lambda>e. fst e \<noteq> k) m) k"
  by (auto simp: Map_has_iff)

text \<open>
  Claim C5. In each of the three maps: \<open>delete\<close> of an absent key raises the missing-key
  error that carries the key, and \<open>deleteIfExists\<close> returns false and leaves the store as
  it was; \<open>delete\<close> of a present key leaves the entries without the one under its storage
  key, so that the key is absent, and \<open>deleteIfExists\<close> does the same and returns true.
  \<open>deleteIfExists\<close> raises in neither case.
\<close>

theorem C5_delete_and_deleteIfExists:
  "(\<not> HashMap_has s m k \<longrightarrow>
      HashMap_delete s m k = Inl (HashMapMissingKeyError m k) \<and>
      HashMap_deleteIfExists s m k = Inr (s, False)) \<and>
   (HashMap_has s m k \<longrightarrow>
      (\<exists>s'. HashMap_delete s m k = Inr s' \<and>
            HashMap_deleteIfExists s m k = Inr (s', True) \<and>
            \<not> HashMap_has s' m k \<and>
            HashMap_entries s' m =
              filter (\<lambda>e. fst e \<noteq> hashKey m k) (HashMap_entries s m))) \<and>
   (\<not> Map_HashMap_has s2 m2 k2 \<longrightarrow>
      Map_HashMap_delete s2 m2 k2 = Inl (MissingKeyError m2 k2) \<and>
      Map_HashMap_deleteIfExists s2 m2 k2 = Inr (s2, False)) \<and>
   (Map_HashMap_has s2 m2 k2 \<longrightarrow>
      (\<exists>s'. Map_HashMap_delete s2 m2 k2 = Inr s' \<and>
            Map_HashMap_deleteIfExists s2 m2 k2 = Inr (s', True) \<and>
            \<not> Map_HashMap_has s' m2 k2 \<and>
            zip (Map_HashMap_serializedKeys s' m2) (Map_HashMap_values s' m2) =
              filter (\<lambda>e. fst e \<noteq> serializeKey m2 k2)
                (zip (Map_HashMap_serializedKeys s2 m2) (Map_HashMap_values s2 m2)))) \<and>
   (\<not> DefaultMap_has s3 m3 k3 \<longrightarrow>
      DefaultMap_delete s3 m3 k3 = Inl (MissingKeyError (dm_internalMap m3) k3) \<and>
      DefaultMap_deleteIfExists s3 m3 k3 = Inr (s3, False)) \<and>
   (DefaultMap_has s3 m3 k3 \<longrightarrow>
      (\<exists>s'. DefaultMap_delete s3 m3 k3 = Inr s' \<and>
            DefaultMap_deleteIfExists s3 m3 k3 = Inr (s', True) \<and>
            \<not> DefaultMap_has s' m3 k3 \<and>
            zip (DefaultMap_serializedKeys s' m3) (DefaultMap_values s' m3) =
              filter (\<lambda>e. fst e \<noteq> serializeKey (dm_internalMap m3) k3)
                (zip (DefaultMap_serializedKeys s3 m3) (DefaultMap_values s3 m3))))"
proof (intro conjI impI)
  assume a: "\<not> HashMap_has s m k"
  show "HashMap_delete s m k = Inl (HashMapMissingKeyError m k)"
    using a by (simp add: HashMap_delete_def)
  show "HashMap_deleteIfExists s m k = Inr (s, False)"
    using a by (simp add: HashMap_deleteIfExists_def)
next
  assume a: "HashMap_has s m k"
  define s' where
    "s' = write_Map s (p_map m) (filter (\<lambda>e. fst e \<noteq> hashKey m k) (maps s (p_map m)))"
  have d: "HashMap_delete s m k = Inr s'"
    using a by (simp add: HashMap_delete_present s'_def)
  have i: "HashMap_deleteIfExists s m k = Inr (s', True)"
    using a d by (simp add: HashMap_deleteIfExists_def)
  have h: "\<not> HashMap_has s' m k"
    by (simp add: s'_def HashMap_has_def maps_write_Map Map_has_filter_out)
  have e: "HashMap_entries s' m = filter (\<lambda>e. fst e \<noteq> hashKey m k) (HashMap_entries s m)"
    by (simp add: s'_def HashMap_entries_eq maps_write_Map)
  from d i h e
  show "\<exists>s'. HashMap_delete s m k = Inr s' \<and>
            HashMap_deleteIfExists s m k = Inr (s', True) \<and>
            \<not> HashMap_has s' m k \<and>
            HashMap_entries s' m =
              filter (\<lambda>e. fst e \<noteq> hashKey m k) (HashMap_entries s m)"
    by blast
next
  assume a: "\<not> Map_HashMap_has s2 m2 k2"
  show "Map_HashMap_delete s2 m2 k2 = Inl (MissingKeyError m2 k2)"
    using a by (simp add: Map_HashMap_delete_def)
  show "Map_HashMap_deleteIfExists s2 m2 k2 = Inr (s2, False)"
    using a by (simp add: Map_HashMap_deleteIfExists_def)
next
  assume a: "Map_HashMap_has s2 m2 k2"
  define s' where
    "s' = write_Map s2 (internalMap m2)
            (filter (\<lambda>e. fst e \<noteq> serializeKey m2 k2) (maps s2 (internalMap m2)))"
  have d: "Map_HashMap_delete s2 m2 k2 = Inr s'"
    using a by (simp add: Map_HashMap_delete_present s'_def)
  have i: "Map_HashMap_deleteIfExists s2 m2 k2 = Inr (s', True)"
    using a d by (simp add: Map_HashMap_deleteIfExists_def)
  have h: "\<not> Map_HashMap_has s' m2 k2"
    by (simp add: s'_def Map_HashMap_has_def maps_write_Map Map_has_filter_out)
  have e: "zip (Map_HashMap_serializedKeys s' m2) (Map_HashMap_values s' m2) =
              filter (\<lambda>e. fst e \<noteq> serializeKey m2 k2)
                (zip (Map_HashMap_serializedKeys s2 m2) (Map_HashMap_values s2 m2))"
    by (simp add: s'_def Map_HashMap_zip maps_write_Map)
  from d i h e
  show "\<exists>s'. Map_HashMap_delete s2 m2 k2 = Inr s' \<and>
            Map_HashMap_deleteIfExists s2 m2 k2 = Inr (s', True) \<and>
            \<not> Map_HashMap_has s' m2 k2 \<and>
            zip (Map_HashMap_serializedKeys s' m2) (Map_HashMap_values s' m2) =
              filter (\<lambda>e. fst e \<noteq> serializeKey m2 k2)
                (zip (Map_HashMap_serializedKeys s2 m2) (Map_HashMap_values s2 m2))"
    by blast
next
  assume a: "\<not> DefaultMap_has s3 m3 k3"
  show "DefaultMap_delete s3 m3 k3 = Inl (MissingKeyError (dm_internalMap m3) k3)"
    using a by (simp add: DefaultMap_delete_def DefaultMap_has_def Map_HashMap_delete_def)
  show "DefaultMap_deleteIfExists s3 m3 k3 = Inr (s3, False)"
    using a
    by (simp add: DefaultMap_deleteIfExists_def DefaultMap_has_def Map_HashMap_deleteIfExists_def)
next
  assume a: "DefaultMap_has s3 m3 k3"
  then have a': "Map_HashMap_has s3 (dm_internalMap m3) k3"
    by (simp add: DefaultMap_has_def)
  define s' where
    "s' = write_Map s3 (internalMap (dm_internalMap m3))
            (filter (\<lambda>e. fst e \<noteq> serializeKey (dm_internalMap m3) k3)
               (maps s3 (internalMap (dm_internalMap m3))))"
  have d: "DefaultMap_delete s3 m3 k3 = Inr s'"
    using a' by (simp add: DefaultMap_delete_def Map_HashMap_delete_present s'_def)
  have i: "DefaultMap_deleteIfExists s3 m3 k3 = Inr (s', True)"
    using a' d
    by (simp add: DefaultMap_deleteIfExists_def DefaultMap_delete_def
        Map_HashMap_deleteIfExists_def)
  have h: "\<not> DefaultMap_has s' m3 k3"
    by (simp add: s'_def DefaultMap_has_def Map_HashMap_has_def maps_write_Map
        Map_has_filter_out)
  have e: "zip (DefaultMap_serializedKeys s' m3) (DefaultMap_values s' m3) =
              filter (\<lambda>e. fst e \<noteq> serializeKey (dm_internalMap m3) k3)
                (zip (DefaultMap_serializedKeys s3 m3) (DefaultMap_values s3 m3))"
    by (simp add: s'_def DefaultMap_serializedKeys_def DefaultMap_values_def Map_HashMap_zip
        maps_write_Map)
  from d i h e
  show "\<exists>s'. DefaultMap_delete s3 m3 k3 = Inr s' \<and>
            DefaultMap_deleteIfExists s3 m3 k3 = Inr (s', True) \<and>
            \<not> DefaultMap_has s' m3 k3 \<and>
            zip (DefaultMap_serializedKeys s' m3) (DefaultMap_values s' m3) =
              filter (\<lambda>e. fst e \<noteq> serializeKey (dm_internalMap m3) k3)
                (zip (DefaultMap_serializedKeys s3 m3) (DefaultMap_values s3 m3))"
    by blast
qed

theorem C5_delete_and_deleteIfExists_witness:
  "(let s = fst (HashMap_empty empty_store None); m = snd (HashMap_empty empty_store None)
    in \<not> HashMap_has s m (5::nat) \<and>
       HashMap_delete s m 5 = Inl (HashMapMissingKeyError m 5) \<and>
       error_key (HashMapMissingKeyError m 5) = 5 \<and>
       HashMap_deleteIfExists s m 5 = Inr (s, False)) \<and>
   (let s = fst numbers; m = snd numbers
    in HashMap_has s m 2 \<and>
       (\<exists>s'. HashMap_delete s m 2 = Inr s' \<and>
             HashMap_deleteIfExists s m 2 = Inr (s', True) \<and>
             \<not> HashMap_has s' m 2 \<and>
             HashMap_entries s' m = [(1, JStr ''one''), (3, JStr ''three''), (4, JStr ''four'')])) \<and>
   (let s = fst words; m = snd words
    in \<not> Map_HashMap_has s m ''z'' \<and>
       Map_HashMap_delete s m ''z'' = Inl (MissingKeyError m ''z'') \<and>
       Map_HashMap_deleteIfExists s m ''z'' = Inr (s, False) \<and>
       Map_HashMap_has s m ''a'' \<and>
       (\<exists>s'. Map_HashMap_delete s m ''a'' = Inr s' \<and>
             Map_HashMap_deleteIfExists s m ''a'' = Inr (s', True) \<and>
             \<not> Map_HashMap_has s' m ''a'' \<and>
             zip (Map_HashMap_serializedKeys s' m) (Map_HashMap_values s' m) =
               [(''#b'', JNum 2)])) \<and>
   (let s = fst scores; m = snd scores
    in \<not> DefaultMap_has s m ''z'' \<and>
       DefaultMap_delete s m ''z'' = Inl (MissingKeyError (dm_internalMap m) ''z'') \<and>
       DefaultMap_deleteIfExists s m ''z'' = Inr (s, False) \<and>
       DefaultMap_has s m ''a'' \<and>
       (\<exists>s'. DefaultMap_delete s m ''a'' = Inr s' \<and>
             DefaultMap_deleteIfExists s m ''a'' = Inr (s', True) \<and>
             \<not> DefaultMap_has s' m ''a'' \<and>
             zip (DefaultMap_serializedKeys s' m) (DefaultMap_values s' m) =
               [(''#b'', JNum 2)]))"
proof -
  define s0 :: "nat store" where "s0 = fst (HashMap_empty empty_store None)"
  define m0 :: "(nat, nat) HashMap" where "m0 = snd (HashMap_empty empty_store None)"
  have a1: "\<not> HashMap_has s0 m0 5"
    by (simp add: s0_def m0_def HashMap_empty_def HashMap_has_def store_simps new_HashMap_def)
  have a2: "\<not> Map_HashMap_has (fst words) (snd words) ''z''"
    by (simp add: words_eq Map_HashMap_has_def tag_def)
  have a3: "\<not> DefaultMap_has (fst scores) (snd scores) ''z''"
    by (simp add: scores_eq DefaultMap_has_def Map_HashMap_has_def tag_def)
  have p1: "HashMap_has (fst numbers) (snd numbers) 2"
    by (simp add: numbers_eq HashMap_has_def hashKey_def)
  have p2: "Map_HashMap_has (fst words) (snd words) ''a''"
    by (simp add: words_eq Map_HashMap_has_def tag_def)
  have p3: "DefaultMap_has (fst scores) (snd scores) ''a''"
    by (simp add: scores_eq DefaultMap_has_def Map_HashMap_has_def tag_def)
  have e1: "filter (\<lambda>e. fst e \<noteq> hashKey (snd numbers) 2)
              (HashMap_entries (fst numbers) (snd numbers)) =
            [(1, JStr ''one''), (3, JStr ''three''), (4, JStr ''four'')]"
    by (simp add: numbers_eq HashMap_entries_def hashKey_def)
  have e2: "filter (\<lambda>e. fst e \<noteq> serializeKey (snd words) ''a'')
              (zip (Map_HashMap_serializedKeys (fst words) (snd words))
                 (Map_HashMap_values (fst words) (snd words))) = [(''#b'', JNum 2)]"
    by (simp add: words_eq Map_HashMap_zip tag_def)
  have e3: "filter (\<lambda>e. fst e \<noteq> serializeKey (dm_internalMap (snd scores)) ''a'')
              (zip (DefaultMap_serializedKeys (fst scores) (snd scores))
                 (DefaultMap_values (fst scores) (snd scores))) = [(''#b'', JNum 2)]"
    by (simp add: scores_eq DefaultMap_serializedKeys_def DefaultMap_values_def
        Map_HashMap_zip tag_def)
  note absent = C5_delete_and_deleteIfExists
    [of s0 m0 5 "fst words" "snd words" "''z''" "fst scores" "snd scores" "''z''"]
  note present = C5_delete_and_deleteIfExists
    [of "fst numbers" "snd numbers" 2 "fst words" "snd words" "''a''"
        "fst scores" "snd scores" "''a''"]
  from absent a1 a2 a3 present p1 p2 p3 show ?thesis
    unfolding Let_def s0_def[symmetric] m0_def[symmetric] e1 e2 e3
    by simp
qed

section \<open>Iteration\<close>

text \<open>
  Claim C8, as the claim states it for every map: the HashMap with serialized keys and the
  DefaultMap store the words under \<open>#a\<close> and \<open>#b\<close>, and their \<open>keys()\<close> and \<open>entries()\<close>
  yield \<open>a\<close> and \<open>b\<close>, the deserialized form, not the storage form.
\<close>

theorem C8_keys_of_serialized_maps_are_deserialized:
  "Map_HashMap_serializedKeys (fst words) (snd words) = [''#a'', ''#b''] \<and>
   Map_HashMap_keys (fst words) (snd words) = [''a'', ''b''] \<and>
   Map_HashMap_entries (fst words) (snd words) = [(''a'', JNum 1), (''b'', JNum 2)] \<and>
   DefaultMap_keys (fst scores) (snd scores) = [''a'', ''b''] \<and>
   DefaultMap_entries (fst scores) (snd scores) = [(''a'', JNum 1), (''b'', JNum 2)]"
  by (simp add: words_eq scores_eq Map_HashMap_serializedKeys_def Map_HashMap_keys_def
      Map_HashMap_entries_def DefaultMap_keys_def DefaultMap_entries_def untag_def)

lemma HashMap_entries_set_absent:
  "\<not> HashMap_has s m k \<Longrightarrow>
   HashMap_entries (HashMap_set s m k v) m = HashMap_entries s m @ [(hashKey m k, v)]"
  by (simp add: HashMap_has_def HashMap_entries_eq HashMap_set_def maps_write_Map Map_set_absent)

lemma HashMap_keys_set_present:
  "HashMap_has s m k \<Longrightarrow> HashMap_keys (HashMap_set s m k v) m = HashMap_keys s m"
  by (simp add: HashMap_has_def HashMap_keys_def HashMap_set_def maps_write_Map
      Map_set_present_keys)

lemma Map_HashMap_entries_set_absent:
  "\<not> Map_HashMap_has s m k \<Longrightarrow>
   Map_HashMap_entries (Map_HashMap_set s m k v) m =
     Map_HashMap_entries s m @ [(deserializeKey m (serializeKey m k), v)]"
  by (simp add: Map_HashMap_has_def Map_HashMap_entries_def Map_HashMap_set_def maps_write_Map
      Map_set_absent)

lemma Map_HashMap_serializedKeys_set_absent:
  "\<not> Map_HashMap_has s m k \<Longrightarrow>
   Map_HashMap_serializedKeys (Map_HashMap_set s m k v) m =
     Map_HashMap_serializedKeys s m @ [serializeKey m k]"
  by (simp add: Map_HashMap_has_def Map_HashMap_serializedKeys_def Map_HashMap_set_def
      maps_write_Map Map_set_absent)

lemma Map_HashMap_serializedKeys_set_present:
  "Map_HashMap_has s m k \<Longrightarrow>
   Map_HashMap_serializedKeys (Map_HashMap_set s m k v) m = Map_HashMap_serializedKeys s m"
  by (simp add: Map_HashMap_has_def Map_HashMap_serializedKeys_def Map_HashMap_set_def
      maps_write_Map Map_set_present_keys)

lemma Map_HashMap_keys_serializedKeys:
  "Map_HashMap_keys s m = map (deserializeKey m) (Map_HashMap_serializedKeys s m)"
  by (simp add: Map_HashMap_keys_def Map_HashMap_serializedKeys_def)

lemma Map_HashMap_entries_zip:
  "Map_HashMap_entries s m =
     zip (Map_HashMap_keys s m) (Map_HashMap_values s m)"
  by (simp add: Map_HashMap_entries_def Map_HashMap_keys_def Map_HashMap_values_def
      zip_map_map split_beta zip_same_conv_map)

text \<open>
  Claim C8, amended. In each of the three maps \<open>keys()\<close> and \<open>entries()\<close> follow the
  order of the stored entries, the iterator of the map is \<open>entries()\<close>, \<open>set\<close> of an absent
  key adds its entry at the end and \<open>set\<close> of a present key leaves the order as it was.
  The HashMap with a hash function yields the storage keys \<open>hash(k)\<close>; the HashMap with
  serialized keys and the DefaultMap yield \<open>deserializeKey\<close> of the storage keys, and
  \<open>serializedKeys()\<close> yields the storage keys themselves.
\<close>

theorem C8_iteration_order_and_key_form:
  "(HashMap_keys s m = map fst (HashMap_entries s m) \<and>
    HashMap_iterator s m = HashMap_entries s m \<and>
    (\<not> HashMap_has s m k \<longrightarrow>
       HashMap_entries (HashMap_set s m k v) m = HashMap_entries s m @ [(hashKey m k, v)]) \<and>
    (HashMap_has s m k \<longrightarrow> HashMap_keys (HashMap_set s m k v) m = HashMap_keys s m)) \<and>
   (Map_HashMap_keys s2 m2 = map (deserializeKey m2) (Map_HashMap_serializedKeys s2 m2) \<and>
    Map_HashMap_entries s2 m2 = zip (Map_HashMap_keys s2 m2) (Map_HashMap_values s2 m2) \<and>
    Map_HashMap_iterator s2 m2 = Map_HashMap_entries s2 m2 \<and>
    (\<not> Map_HashMap_has s2 m2 k2 \<longrightarrow>
       Map_HashMap_serializedKeys (Map_HashMap_set s2 m2 k2 v2) m2 =
         Map_HashMap_serializedKeys s2 m2 @ [serializeKey m2 k2] \<and>
       Map_HashMap_entries (Map_HashMap_set s2 m2 k2 v2) m2 =
         Map_HashMap_entries s2 m2 @ [(deserializeKey m2 (serializeKey m2 k2), v2)]) \<and>
    (Map_HashMap_has s2 m2 k2 \<longrightarrow>
       Map_HashMap_serializedKeys (Map_HashMap_set s2 m2 k2 v2) m2 =
         Map_HashMap_serializedKeys s2 m2)) \<and>
   (DefaultMap_keys s3 m3 =
      map (deserializeKey (dm_internalMap m3)) (DefaultMap_serializedKeys s3 m3) \<and>
    DefaultMap_entries s3 m3 = zip (DefaultMap_keys s3 m3) (DefaultMap_values s3 m3) \<and>
    DefaultMap_iterator s3 m3 = DefaultMap_entries s3 m3 \<and>
    (\<not> DefaultMap_has s3 m3 k3 \<longrightarrow>
       DefaultMap_serializedKeys (DefaultMap_set s3 m3 k3 v3) m3 =
         DefaultMap_serializedKeys s3 m3 @ [serializeKey (dm_internalMap m3) k3] \<and>
       DefaultMap_entries (DefaultMap_set s3 m3 k3 v3) m3 =
         DefaultMap_entries s3 m3 @
           [(deserializeKey (dm_internalMap m3) (serializeKey (dm_internalMap m3) k3), v3)]) \<and>
    (DefaultMap_has s3 m3 k3 \<longrightarrow>
       DefaultMap_serializedKeys (DefaultMap_set s3 m3 k3 v3) m3 =
         DefaultMap_serializedKeys s3 m3))"
proof (intro conjI impI)
  show "HashMap_keys s m = map fst (HashMap_entries s m)"
    by (simp add: HashMap_keys_def HashMap_entries_eq)
  show "HashMap_iterator s m = HashMap_entries s m"
    by (simp add: HashMap_iterator_def)
  show "Map_HashMap_keys s2 m2 = map (deserializeKey m2) (Map_HashMap_serializedKeys s2 m2)"
    by (rule Map_HashMap_keys_serializedKeys)
  show "Map_HashMap_entries s2 m2 = zip (Map_HashMap_keys s2 m2) (Map_HashMap_values s2 m2)"
    by (rule Map_HashMap_entries_zip)
  show "Map_HashMap_iterator s2 m2 = Map_HashMap_entries s2 m2"
    by (simp add: Map_HashMap_iterator_def)
  show "DefaultMap_keys s3 m3 =
      map (deserializeKey (dm_internalMap m3)) (DefaultMap_serializedKeys s3 m3)"
    by (simp add: DefaultMap_keys_def DefaultMap_serializedKeys_def
        Map_HashMap_keys_serializedKeys)
  show "DefaultMap_entries s3 m3 = zip (DefaultMap_keys s3 m3) (DefaultMap_values s3 m3)"
    by (simp add: DefaultMap_entries_def DefaultMap_keys_def DefaultMap_values_def
        Map_HashMap_entries_zip)
  show "DefaultMap_iterator s3 m3 = DefaultMap_entries s3 m3"
    by (simp add: DefaultMap_iterator_def)
next
  assume "\<not> HashMap_has s m k"
  then show "HashMap_entries (HashMap_set s m k v) m = HashMap_entries s m @ [(hashKey m k, v)]"
    by (rule HashMap_entries_set_absent)
next
  assume "HashMap_has s m k"
  then show "HashMap_keys (HashMap_set s m k v) m = HashMap_keys s m"
    by (rule HashMap_keys_set_present)
next
  assume a: "\<not> Map_HashMap_has s2 m2 k2"
  show "Map_HashMap_serializedKeys (Map_HashMap_set s2 m2 k2 v2) m2 =
         Map_HashMap_serializedKeys s2 m2 @ [serializeKey m2 k2]"
    using a by (rule Map_HashMap_serializedKeys_set_absent)
  show "Map_HashMap_entries (Map_HashMap_set s2 m2 k2 v2) m2 =
         Map_HashMap_entries s2 m2 @ [(deserializeKey m2 (serializeKey m2 k2), v2)]"
    using a by (rule Map_HashMap_entries_set_absent)
next
  assume "Map_HashMap_has s2 m2 k2"
  then show "Map_HashMap_serializedKeys (Map_HashMap_set s2 m2 k2 v2) m2 =
         Map_HashMap_serializedKeys s2 m2"
    by (rule Map_HashMap_serializedKeys_set_present)
next
  assume a: "\<not> DefaultMap_has s3 m3 k3"
  show "DefaultMap_serializedKeys (DefaultMap_set s3 m3 k3 v3) m3 =
         DefaultMap_serializedKeys s3 m3 @ [serializeKey (dm_internalMap m3) k3]"
    using a by (simp add: DefaultMap_has_def DefaultMap_serializedKeys_def DefaultMap_set_def
        Map_HashMap_serializedKeys_set_absent)
  show "DefaultMap_entries (DefaultMap_set s3 m3 k3 v3) m3 =
         DefaultMap_entries s3 m3 @
           [(deserializeKey (dm_internalMap m3) (serializeKey (dm_internalMap m3) k3), v3)]"
    using a by (simp add: DefaultMap_has_def DefaultMap_entries_def DefaultMap_set_def
        Map_HashMap_entries_set_absent)
next
  assume "DefaultMap_has s3 m3 k3"
  then show "DefaultMap_serializedKeys (DefaultMap_set s3 m3 k3 v3) m3 =
         DefaultMap_serializedKeys s3 m3"
    by (simp add: DefaultMap_has_def DefaultMap_serializedKeys_def DefaultMap_set_def
        Map_HashMap_serializedKeys_set_present)
qed

theorem C8_iteration_order_and_key_form_witness:
  "(let s = fst dates; m = snd dates; k = (1, ''2020-01-01'')
    in \<not> HashMap_has s m k \<and>
       HashMap_entries (HashMap_set s m k (JNum 1)) m = [(''2020-01-01'', JNum 1)]) \<and>
   (let s = fst numbers; m = snd numbers
    in HashMap_has s m 2 \<and>
       HashMap_keys (HashMap_set s m 2 (JStr ''deux'')) m = [1, 2, 3, 4] \<and>
       HashMap_iterator s m = HashMap_entries s m) \<and>
   (let s = fst words; m = snd words
    in \<not> Map_HashMap_has s m ''c'' \<and>
       Map_HashMap_serializedKeys (Map_HashMap_set s m ''c'' (JNum 3)) m =
         [''#a'', ''#b'', ''#c''] \<and>
       Map_HashMap_entries (Map_HashMap_set s m ''c'' (JNum 3)) m =
         [(''a'', JNum 1), (''b'', JNum 2), (''c'', JNum 3)] \<and>
       Map_HashMap_has s m ''a'' \<and>
       Map_HashMap_serializedKeys (Map_HashMap_set s m ''a'' (JNum 3)) m = [''#a'', ''#b'']) \<and>
   (let s = fst scores; m = snd scores
    in \<not> DefaultMap_has s m ''c'' \<and>
       DefaultMap_serializedKeys (DefaultMap_set s m ''c'' (JNum 3)) m =
         [''#a'', ''#b'', ''#c''] \<and>
       DefaultMap_entries (DefaultMap_set s m ''c'' (JNum 3)) m =
         [(''a'', JNum 1), (''b'', JNum 2), (''c'', JNum 3)] \<and>
       DefaultMap_has s m ''a'' \<and>
       DefaultMap_serializedKeys (DefaultMap_set s m ''a'' (JNum 3)) m = [''#a'', ''#b''])"
proof -
  have a1: "\<not> HashMap_has (fst dates) (snd dates) (1, ''2020-01-01'')"
    by (simp add: dates_eq HashMap_has_def)
  have a2: "\<not> Map_HashMap_has (fst words) (snd words) ''c''"
    by (simp add: words_eq Map_HashMap_has_def tag_def)
  have a3: "\<not> DefaultMap_has (fst scores) (snd scores) ''c''"
    by (simp add: scores_eq DefaultMap_has_def Map_HashMap_has_def tag_def)
  have p1: "HashMap_has (fst numbers) (snd numbers) 2"
    by (simp add: numbers_eq HashMap_has_def hashKey_def)
  have p2: "Map_HashMap_has (fst words) (snd words) ''a''"
    by (simp add: words_eq Map_HashMap_has_def tag_def)
  have p3: "DefaultMap_has (fst scores) (snd scores) ''a''"
    by (simp add: scores_eq DefaultMap_has_def Map_HashMap_has_def tag_def)
  have v1: "HashMap_entries (fst dates) (snd dates) = [] \<and>
            hashKey (snd dates) (1, ''2020-01-01'') = ''2020-01-01''"
    by (simp add: dates_eq HashMap_entries_def hashKey_def toISODateString_def)
  have v2: "HashMap_keys (fst numbers) (snd numbers) = [1, 2, 3, 4]"
    by (simp add: numbers_eq HashMap_keys_def)
  have v3: "Map_HashMap_serializedKeys (fst words) (snd words) = [''#a'', ''#b''] \<and>
            Map_HashMap_entries (fst words) (snd words) = [(''a'', JNum 1), (''b'', JNum 2)] \<and>
            serializeKey (snd words) ''c'' = ''#c'' \<and> deserializeKey (snd words) ''#c'' = ''c''"
    by (simp add: words_eq Map_HashMap_serializedKeys_def Map_HashMap_entries_def tag_def
        untag_def)
  have v4: "DefaultMap_serializedKeys (fst scores) (snd scores) = [''#a'', ''#b''] \<and>
            DefaultMap_entries (fst scores) (snd scores) = [(''a'', JNum 1), (''b'', JNum 2)] \<and>
            serializeKey (dm_internalMap (snd scores)) ''c'' = ''#c'' \<and>
            deserializeKey (dm_internalMap (snd scores)) ''#c'' = ''c''"
    by (simp add: scores_eq DefaultMap_serializedKeys_def DefaultMap_entries_def
        Map_HashMap_serializedKeys_def Map_HashMap_entries_def tag_def untag_def)
  note absent = C8_iteration_order_and_key_form
    [of "fst dates" "snd dates" "(1, ''2020-01-01'')" "JNum 1"
        "fst words" "snd words" "''c''" "JNum 3" "fst scores" "snd scores" "''c''" "JNum 3"]
  note present = C8_iteration_order_and_key_form
    [of "fst numbers" "snd numbers" 2 "JStr ''deux''"
        "fst words" "snd words" "''a''" "JNum 3" "fst scores" "snd scores" "''a''" "JNum 3"]
  from absent a1 a2 a3 v1 v3 v4
  have A: "HashMap_entries (HashMap_set (fst dates) (snd dates) (1, ''2020-01-01'') (JNum 1))
             (snd dates) = [(''2020-01-01'', JNum 1)] \<and>
           Map_HashMap_serializedKeys (Map_HashMap_set (fst words) (snd words) ''c'' (JNum 3))
             (snd words) = [''#a'', ''#b'', ''#c''] \<and>
           Map_HashMap_entries (Map_HashMap_set (fst words) (snd words) ''c'' (JNum 3))
             (snd words) = [(''a'', JNum 1), (''b'', JNum 2), (''c'', JNum 3)] \<and>
           DefaultMap_serializedKeys (DefaultMap_set (fst scores) (snd scores) ''c'' (JNum 3))
             (snd scores) = [''#a'', ''#b'', ''#c''] \<and>
           DefaultMap_entries (DefaultMap_set (fst scores) (snd scores) ''c'' (JNum 3))
             (snd scores) = [(''a'', JNum 1), (''b'', JNum 2), (''c'', JNum 3)]"
    by simp
  from present p1 p2 p3 v2 v3 v4
  have P: "HashMap_keys (HashMap_set (fst numbers) (snd numbers) 2 (JStr ''deux''))
             (snd numbers) = [1, 2, 3, 4] \<and>
           HashMap_iterator (fst numbers) (snd numbers) =
             HashMap_entries (fst numbers) (snd numbers) \<and>
           Map_HashMap_serializedKeys (Map_HashMap_set (fst words) (snd words) ''a'' (JNum 3))
             (snd words) = [''#a'', ''#b''] \<and>
           DefaultMap_serializedKeys (DefaultMap_set (fst scores) (snd scores) ''a'' (JNum 3))
             (snd scores) = [''#a'', ''#b'']"
    by simp
  from A P a1 a2 a3 p1 p2 p3 show ?thesis
    by (simp add: Let_def)
qed

section \<open>Derived maps\<close>

lemma alloc_Map_fresh: "snd (alloc_Map s es) = fresh s"
  by (simp add: alloc_Map_def)

lemma alloc_Map_maps:
  "maps (fst (alloc_Map s es)) r = (if r = fresh s then new_Map es else maps s r)"
  by (simp add: alloc_Map_def)

lemma alloc_Map_next: "fresh (fst (alloc_Map s es)) = Suc (fresh s)"
  by (simp add: alloc_Map_def)

lemma HashMap_filter_eq:
  "HashMap_filter s m fn =
     (fst (alloc_Map s (fst (HashMap_filter_run s m fn))),
      \<lparr>hash = hash m, p_map = fresh s, name = name m\<rparr>)"
  by (simp add: HashMap_filter_def Let_def split_beta alloc_Map_fresh new_HashMap_def)

lemma HashMap_map_eq:
  "HashMap_map s m fn =
     (fst (alloc_Map s (map_loop fn m (HashMap_entries s m) [])),
      \<lparr>hash = hash m, p_map = fresh s, name = name m\<rparr>)"
  by (simp add: HashMap_map_def Let_def split_beta alloc_Map_fresh new_HashMap_def)

lemma Map_HashMap_fromEntries_eq:
  "Map_HashMap_fromEntries s es d z =
     (fst (alloc_Map s (map (\<lambda>(key, value). (z key, value)) es)),
      \<lparr>internalMap = fresh s, deserializeKey = d, serializeKey = z\<rparr>)"
  by (simp add: Map_HashMap_fromEntries_def Let_def split_beta alloc_Map_fresh)

lemma DefaultMap_fromEntries_eq:
  "DefaultMap_fromEntries s es dv d z =
     (fst (alloc_Map s (map (\<lambda>(key, value). (z key, value)) es)),
      \<lparr>dm_internalMap = \<lparr>internalMap = fresh s, deserializeKey = d, serializeKey = z\<rparr>,
       defaultValue = dv, dm_name = None\<rparr>)"
  by (simp add: DefaultMap_fromEntries_def Let_def split_beta alloc_Map_fresh)

text \<open>What a map built on a newly allocated Map object shares with an older one: nothing.\<close>

lemma HashMap_derived:
  assumes "p_map m < fresh s"
  shows "(let s' = fst (alloc_Map s es); m' = \<lparr>hash = hash m, p_map = fresh s, name = name m\<rparr>
          in HashMap_entries s' m = HashMap_entries s m \<and>
             (\<forall>r<fresh s. maps s' r = maps s r) \<and>
             hash m' = hash m \<and> name m' = name m \<and>
             p_map m' \<noteq> p_map m \<and> \<not> p_map m' < fresh s \<and>
             (\<forall>k v. HashMap_entries (HashMap_set s' m' k v) m = HashMap_entries s m) \<and>
             (\<forall>k v. HashMap_entries (HashMap_set s' m k v) m' = HashMap_entries s' m'))"
  using assms
  by (simp add: Let_def HashMap_entries_eq alloc_Map_maps HashMap_set_def maps_write_Map)

lemma Map_HashMap_derived:
  assumes "internalMap m < fresh s"
  shows "(let s' = fst (alloc_Map s es);
              m' = \<lparr>internalMap = fresh s, deserializeKey = deserializeKey m,
                    serializeKey = serializeKey m\<rparr>
          in Map_HashMap_entries s' m = Map_HashMap_entries s m \<and>
             (\<forall>r<fresh s. maps s' r = maps s r) \<and>
             deserializeKey m' = deserializeKey m \<and> serializeKey m' = serializeKey m \<and>
             internalMap m' \<noteq> internalMap m \<and> \<not> internalMap m' < fresh s \<and>
             (\<forall>k v. Map_HashMap_entries (Map_HashMap_set s' m' k v) m = Map_HashMap_entries s m) \<and>
             (\<forall>k v. Map_HashMap_entries (Map_HashMap_set s' m k v) m' =
                      Map_HashMap_entries s' m'))"
  using assms
  by (simp add: Let_def Map_HashMap_entries_def alloc_Map_maps Map_HashMap_set_def maps_write_Map)

lemma DefaultMap_derived:
  assumes "internalMap (dm_internalMap m) < fresh s"
  shows "(let s' = fst (alloc_Map s es);
              m' = \<lparr>dm_internalMap =
                      \<lparr>internalMap = fresh s, deserializeKey = deserializeKey (dm_internalMap m),
                       serializeKey = serializeKey (dm_internalMap m)\<rparr>,
                    defaultValue = defaultValue m, dm_name = None\<rparr>
          in DefaultMap_entries s' m = DefaultMap_entries s m \<and>
             (\<forall>r<fresh s. maps s' r = maps s r) \<and>
             deserializeKey (dm_internalMap m') = deserializeKey (dm_internalMap m) \<and>
             serializeKey (dm_internalMap m') = serializeKey (dm_internalMap m) \<and>
             defaultValue m' = defaultValue m \<and>
             internalMap (dm_internalMap m') \<noteq> internalMap (dm_internalMap m) \<and>
             \<not> internalMap (dm_internalMap m') < fresh s \<and>
             (\<forall>k v. DefaultMap_entries (DefaultMap_set s' m' k v) m = DefaultMap_entries s m) \<and>
             (\<forall>k v. DefaultMap_entries (DefaultMap_set s' m k v) m' = DefaultMap_entries s' m'))"
  using assms
  by (simp add: Let_def DefaultMap_entries_def DefaultMap_set_def Map_HashMap_entries_def
      alloc_Map_maps Map_HashMap_set_def maps_write_Map)

text \<open>
  Claim C7, as the claim states it for every map: \<open>filter\<close> of a DefaultMap that was
  created with the name \<open>scores\<close> returns a DefaultMap without a name.
\<close>

theorem C7_DefaultMap_filter_drops_the_name:
  "dm_name named_scores = Some ''scores'' \<and>
   dm_name (snd (DefaultMap_filter (fst scores) named_scores keep_all)) = None \<and>
   dm_name (snd (DefaultMap_filter (fst scores) named_scores keep_all)) \<noteq> dm_name named_scores"
  by (simp add: named_scores_def DefaultMap_filter_def DefaultMap_fromEntries_eq)

text \<open>
  Claim C7, amended. With callbacks free of side effects, \<open>filter\<close>, \<open>map\<close>, \<open>mapKeys\<close>
  and \<open>mapValues\<close> of each of the three maps leave every Map object allocated so far
  as it was, so that the entries of the source are unchanged, and return a map on a newly
  allocated Map object: later writes to either map do not reach the other. The returned
  map has the hash function and the name of the source (HashMap with a hash function),
  its \<open>deserializeKey\<close> and \<open>serializeKey\<close> (HashMap with serialized keys), and these two
  and its \<open>defaultValue\<close> (DefaultMap).
\<close>

theorem C7_derivations_leave_the_source:
  assumes "p_map m < fresh s"
    and "internalMap m2 < fresh s2"
    and "internalMap (dm_internalMap m3) < fresh s3"
  shows
    "(\<forall>(s', m') \<in> {HashMap_filter s m p, HashMap_map s m f, HashMap_mapKeys s m g,
                    HashMap_mapValues s m h}.
        HashMap_entries s' m = HashMap_entries s m \<and>
        (\<forall>r<fresh s. maps s' r = maps s r) \<and>
        hash m' = hash m \<and> name m' = name m \<and>
        p_map m' \<noteq> p_map m \<and> \<not> p_map m' < fresh s \<and>
        (\<forall>k v. HashMap_entries (HashMap_set s' m' k v) m = HashMap_entries s m) \<and>
        (\<forall>k v. HashMap_entries (HashMap_set s' m k v) m' = HashMap_entries s' m')) \<and>
     (\<forall>(s', m') \<in> {Map_HashMap_filter s2 m2 p2, Map_HashMap_map s2 m2 f2,
                    Map_HashMap_mapKeys s2 m2 g2, Map_HashMap_mapValues s2 m2 h2}.
        Map_HashMap_entries s' m2 = Map_HashMap_entries s2 m2 \<and>
        (\<forall>r<fresh s2. maps s' r = maps s2 r) \<and>
        deserializeKey m' = deserializeKey m2 \<and> serializeKey m' = serializeKey m2 \<and>
        internalMap m' \<noteq> internalMap m2 \<and> \<not> internalMap m' < fresh s2 \<and>
        (\<forall>k v. Map_HashMap_entries (Map_HashMap_set s' m' k v) m2 = Map_HashMap_entries s2 m2) \<and>
        (\<forall>k v. Map_HashMap_entries (Map_HashMap_set s' m2 k v) m' = Map_HashMap_entries s' m')) \<and>
     (\<forall>(s', m') \<in> {DefaultMap_filter s3 m3 p3, DefaultMap_map s3 m3 f3,
                    DefaultMap_mapKeys s3 m3 g3, DefaultMap_mapValues s3 m3 h3}.
        DefaultMap_entries s' m3 = DefaultMap_entries s3 m3 \<and>
        (\<forall>r<fresh s3. maps s' r = maps s3 r) \<and>
        deserializeKey (dm_internalMap m') = deserializeKey (dm_internalMap m3) \<and>
        serializeKey (dm_internalMap m') = serializeKey (dm_internalMap m3) \<and>
        defaultValue m' = defaultValue m3 \<and>
        internalMap (dm_internalMap m') \<noteq> internalMap (dm_internalMap m3) \<and>
        \<not> internalMap (dm_internalMap m') < fresh s3 \<and>
        (\<forall>k v. DefaultMap_entries (DefaultMap_set s' m' k v) m3 = DefaultMap_entries s3 m3) \<and>
        (\<forall>k v. DefaultMap_entries (DefaultMap_set s' m3 k v) m' = DefaultMap_entries s' m'))"
proof (intro conjI)
  note d = HashMap_derived[OF assms(1), unfolded Let_def]
  show "\<forall>(s', m') \<in> {HashMap_filter s m p, HashMap_map s m f, HashMap_mapKeys s m g,
                    HashMap_mapValues s m h}.
        HashMap_entries s' m = HashMap_entries s m \<and>
        (\<forall>r<fresh s. maps s' r = maps s r) \<and>
        hash m' = hash m \<and> name m' = name m \<and>
        p_map m' \<noteq> p_map m \<and> \<not> p_map m' < fresh s \<and>
        (\<forall>k v. HashMap_entries (HashMap_set s' m' k v) m = HashMap_entries s m) \<and>
        (\<forall>k v. HashMap_entries (HashMap_set s' m k v) m' = HashMap_entries s' m')"
    unfolding HashMap_mapKeys_def HashMap_mapValues_def HashMap_filter_eq HashMap_map_eq
    using d by blast
next
  note d = Map_HashMap_derived[OF assms(2), unfolded Let_def]
  show "\<forall>(s', m') \<in> {Map_HashMap_filter s2 m2 p2, Map_HashMap_map s2 m2 f2,
                    Map_HashMap_mapKeys s2 m2 g2, Map_HashMap_mapValues s2 m2 h2}.
        Map_HashMap_entries s' m2 = Map_HashMap_entries s2 m2 \<and>
        (\<forall>r<fresh s2. maps s' r = maps s2 r) \<and>
        deserializeKey m' = deserializeKey m2 \<and> serializeKey m' = serializeKey m2 \<and>
        internalMap m' \<noteq> internalMap m2 \<and> \<not> internalMap m' < fresh s2 \<and>
        (\<forall>k v. Map_HashMap_entries (Map_HashMap_set s' m' k v) m2 = Map_HashMap_entries s2 m2) \<and>
        (\<forall>k v. Map_HashMap_entries (Map_HashMap_set s' m2 k v) m' = Map_HashMap_entries s' m')"
    unfolding Map_HashMap_mapKeys_def Map_HashMap_mapValues_def Map_HashMap_filter_def
      Map_HashMap_map_def Map_HashMap_fromEntries_eq
    using d by blast
next
  note d = DefaultMap_derived[OF assms(3), unfolded Let_def]
  show "\<forall>(s', m') \<in> {DefaultMap_filter s3 m3 p3, DefaultMap_map s3 m3 f3,
                    DefaultMap_mapKeys s3 m3 g3, DefaultMap_mapValues s3 m3 h3}.
        DefaultMap_entries s' m3 = DefaultMap_entries s3 m3 \<and>
        (\<forall>r<fresh s3. maps s' r = maps s3 r) \<and>
        deserializeKey (dm_internalMap m') = deserializeKey (dm_internalMap m3) \<and>
        serializeKey (dm_internalMap m') = serializeKey (dm_internalMap m3) \<and>
        defaultValue m' = defaultValue m3 \<and>
        internalMap (dm_internalMap m') \<noteq> internalMap (dm_internalMap m3) \<and>
        \<not> internalMap (dm_internalMap m') < fresh s3 \<and>
        (\<forall>k v. DefaultMap_entries (DefaultMap_set s' m' k v) m3 = DefaultMap_entries s3 m3) \<and>
        (\<forall>k v. DefaultMap_entries (DefaultMap_set s' m3 k v) m' = DefaultMap_entries s' m')"
    unfolding DefaultMap_filter_def DefaultMap_map_def DefaultMap_mapKeys_def
      DefaultMap_mapValues_def DefaultMap_fromEntries_eq
    using d by blast
qed

theorem C7_derivations_leave_the_source_witness:
  "p_map (snd numbers) < fresh (fst numbers) \<and>
   internalMap (snd words) < fresh (fst words) \<and>
   internalMap (dm_internalMap (snd scores)) < fresh (fst scores) \<and>
   (let s = fst numbers; m = snd numbers; s' = fst (HashMap_filter s m long_name);
        m' = snd (HashMap_filter s m long_name)
    in HashMap_entries s' m' = [(3, JStr ''three''), (4, JStr ''four'')] \<and>
       HashMap_entries s' m = HashMap_entries s m \<and>
       hash m' = hash m \<and> name m' = name m \<and> p_map m' \<noteq> p_map m \<and>
       HashMap_entries (HashMap_set s' m' 5 (JStr ''five'')) m = HashMap_entries s m) \<and>
   (let s = fst words; m = snd words;
        s' = fst (Map_HashMap_mapValues s m (\<lambda>value key index original. JNull));
        m' = snd (Map_HashMap_mapValues s m (\<lambda>value key index original. JNull))
    in Map_HashMap_entries s' m = Map_HashMap_entries s m \<and>
       deserializeKey m' = deserializeKey m \<and> serializeKey m' = serializeKey m \<and>
       internalMap m' \<noteq> internalMap m) \<and>
   (let s = fst scores; m = snd scores;
        s' = fst (DefaultMap_mapKeys s m (\<lambda>key value index original. ''k''));
        m' = snd (DefaultMap_mapKeys s m (\<lambda>key value index original. ''k''))
    in DefaultMap_entries s' m = DefaultMap_entries s m \<and>
       deserializeKey (dm_internalMap m') = deserializeKey (dm_internalMap m) \<and>
       serializeKey (dm_internalMap m') = serializeKey (dm_internalMap m) \<and>
       defaultValue m' = defaultValue m \<and>
       internalMap (dm_internalMap m') \<noteq> internalMap (dm_internalMap m))"
proof -
  have h1: "p_map (snd numbers) < fresh (fst numbers)"
    by (simp add: numbers_eq)
  have h2: "internalMap (snd words) < fresh (fst words)"
    by (simp add: words_eq)
  have h3: "internalMap (dm_internalMap (snd scores)) < fresh (fst scores)"
    by (simp add: scores_eq)
  have e: "HashMap_entries (fst (HashMap_filter (fst numbers) (snd numbers) long_name))
             (snd (HashMap_filter (fst numbers) (snd numbers) long_name)) =
           [(3, JStr ''three''), (4, JStr ''four'')]"
    by (simp add: HashMap_filter_eq HashMap_entries_eq alloc_Map_maps HashMap_filter_run_def
        numbers_eq long_name_def new_Map_def)
  note t = C7_derivations_leave_the_source[OF h1 h2 h3,
      of long_name "\<lambda>value key index original. (key, value)"
         "\<lambda>key value index original. key" "\<lambda>value key index original. value"
         keep_all "\<lambda>value key index original. (key, value)"
         "\<lambda>key value index original. key" "\<lambda>value key index original. JNull"
         keep_all "\<lambda>value key index original. (key, value)"
         "\<lambda>key value index original. ''k''" "\<lambda>value key index original. value"]
  from t h1 h2 h3 e show ?thesis
    by (simp add: Let_def split_beta)
qed

section \<open>The calls of the filter predicate\<close>

lemma filter_loop_calls:
  "map (\<lambda>c. (call_key c, call_value c)) (snd (filter_loop fn this rest entries calls)) =
   map (\<lambda>c. (call_key c, call_value c)) calls @ rest"
  by (induction rest arbitrary: entries calls) (auto simp: Let_def)

lemma filter_loop_index_calls:
  "map (\<lambda>c. (call_key c, call_value c))
     (snd (filter_loop_index fn this rest entries index calls)) =
   map (\<lambda>c. (call_key c, call_value c)) calls @ rest"
  by (induction rest arbitrary: entries index calls) (auto simp: Let_def)

lemma filter_loop_inv:
  assumes "entries = map (\<lambda>c. (call_key c, call_value c)) (filter call_result calls)"
    and "\<forall>j<length calls.
           call_result (calls ! j) =
             fn (call_value (calls ! j)) (call_key (calls ! j)) (call_index (calls ! j)) this \<and>
           call_index (calls ! j) = length (filter call_result (take j calls))"
  shows "fst (filter_loop fn this rest entries calls) =
           map (\<lambda>c. (call_key c, call_value c))
             (filter call_result (snd (filter_loop fn this rest entries calls))) \<and>
         (\<forall>j<length (snd (filter_loop fn this rest entries calls)).
            call_result (snd (filter_loop fn this rest entries calls) ! j) =
              fn (call_value (snd (filter_loop fn this rest entries calls) ! j))
                 (call_key (snd (filter_loop fn this rest entries calls) ! j))
                 (call_index (snd (filter_loop fn this rest entries calls) ! j)) this \<and>
            call_index (snd (filter_loop fn this rest entries calls) ! j) =
              length (filter call_result
                (take j (snd (filter_loop fn this rest entries calls)))))"
  using assms
proof (induction rest arbitrary: entries calls)
  case Nil
  then show ?case by simp
next
  case (Cons e rest)
  obtain key "value" where e: "e = (key, value)" by (cases e)
  define r where "r = fn value key (length entries) this"
  define c where
    "c = \<lparr>call_value = value, call_key = key, call_index = length entries, call_result = r\<rparr>"
  define entries' where "entries' = (if r then entries @ [(key, value)] else entries)"
  have step: "filter_loop fn this (e # rest) entries calls =
              filter_loop fn this rest entries' (calls @ [c])"
    by (simp add: e Let_def r_def c_def entries'_def)
  have len: "length entries = length (filter call_result calls)"
    using Cons.prems(1) by simp
  have 1: "entries' =
             map (\<lambda>c. (call_key c, call_value c)) (filter call_result (calls @ [c]))"
    using Cons.prems(1) by (simp add: entries'_def c_def)
  have 2: "\<forall>j<length (calls @ [c]).
           call_result ((calls @ [c]) ! j) =
             fn (call_value ((calls @ [c]) ! j)) (call_key ((calls @ [c]) ! j))
                (call_index ((calls @ [c]) ! j)) this \<and>
           call_index ((calls @ [c]) ! j) =
             length (filter call_result (take j (calls @ [c])))"
  proof (intro allI impI)
    fix j assume j: "j < length (calls @ [c])"
    show "call_result ((calls @ [c]) ! j) =
             fn (call_value ((calls @ [c]) ! j)) (call_key ((calls @ [c]) ! j))
                (call_index ((calls @ [c]) ! j)) this \<and>
           call_index ((calls @ [c]) ! j) =
             length (filter call_result (take j (calls @ [c])))"
    proof (cases "j < length calls")
      case True
      then show ?thesis using Cons.prems(2) by (simp add: nth_append)
    next
      case False
      with j have "j = length calls" by simp
      then show ?thesis by (simp add: c_def r_def len)
    qed
  qed
  show ?case
    unfolding step by (rule Cons.IH[OF 1 2])
qed

lemma filter_loop_index_inv:
  assumes "entries = map (\<lambda>c. (call_key c, call_value c)) (filter call_result calls)"
    and "index = length calls"
    and "\<forall>j<length calls.
           call_result (calls ! j) =
             fn (call_value (calls ! j)) (call_key (calls ! j)) (call_index (calls ! j)) this \<and>
           call_index (calls ! j) = j"
  shows "fst (filter_loop_index fn this rest entries index calls) =
           map (\<lambda>c. (call_key c, call_value c))
             (filter call_result (snd (filter_loop_index fn this rest entries index calls))) \<and>
         (\<forall>j<length (snd (filter_loop_index fn this rest entries index calls)).
            call_result (snd (filter_loop_index fn this rest entries index calls) ! j) =
              fn (call_value (snd (filter_loop_index fn this rest entries index calls) ! j))
                 (call_key (snd (filter_loop_index fn this rest entries index calls) ! j))
                 (call_index (snd (filter_loop_index fn this rest entries index calls) ! j))
                 this \<and>
            call_index (snd (filter_loop_index fn this rest entries index calls) ! j) = j)"
  using assms
proof (induction rest arbitrary: entries index calls)
  case Nil
  then show ?case by simp
next
  case (Cons e rest)
  obtain key "value" where e: "e = (key, value)" by (cases e)
  define r where "r = fn value key index this"
  define c where
    "c = \<lparr>call_value = value, call_key = key, call_index = index, call_result = r\<rparr>"
  define entries' where "entries' = (if r then entries @ [(key, value)] else entries)"
  have step: "filter_loop_index fn this (e # rest) entries index calls =
              filter_loop_index fn this rest entries' (index + 1) (calls @ [c])"
    by (simp add: e Let_def r_def c_def entries'_def)
  have 1: "entries' =
             map (\<lambda>c. (call_key c, call_value c)) (filter call_result (calls @ [c]))"
    using Cons.prems(1) by (simp add: entries'_def c_def)
  have 2: "index + 1 = length (calls @ [c])"
    using Cons.prems(2) by simp
  have 3: "\<forall>j<length (calls @ [c]).
           call_result ((calls @ [c]) ! j) =
             fn (call_value ((calls @ [c]) ! j)) (call_key ((calls @ [c]) ! j))
                (call_index ((calls @ [c]) ! j)) this \<and>
           call_index ((calls @ [c]) ! j) = j"
  proof (intro allI impI)
    fix j assume j: "j < length (calls @ [c])"
    show "call_result ((calls @ [c]) ! j) =
             fn (call_value ((calls @ [c]) ! j)) (call_key ((calls @ [c]) ! j))
                (call_index ((calls @ [c]) ! j)) this \<and>
           call_index ((calls @ [c]) ! j) = j"
    proof (cases "j < length calls")
      case True
      then show ?thesis using Cons.prems(3) by (simp add: nth_append)
    next
      case False
      with j have "j = length calls" by simp
      then show ?thesis using Cons.prems(2) by (simp add: c_def r_def)
    qed
  qed
  show ?case
    unfolding step by (rule Cons.IH[OF 1 2 3])
qed

lemma accepted_new_Map:
  assumes "Map_wf stored"
    and "map (\<lambda>c. (call_key c, call_value c)) calls = stored"
  shows "new_Map (map (\<lambda>c. (call_key c, call_value c)) (filter call_result calls)) =
         map (\<lambda>c. (call_key c, call_value c)) (filter call_result calls)"
proof -
  have "map call_key calls = map fst stored"
    using assms(2) by (auto simp: comp_def)
  then have "distinct (map call_key calls)"
    using assms(1) by (simp add: Map_wf_def)
  then have "distinct (map call_key (filter call_result calls))"
    by (rule distinct_map_filter)
  then have "Map_wf (map (\<lambda>c. (call_key c, call_value c)) (filter call_result calls))"
    by (simp add: Map_wf_def comp_def)
  then show ?thesis by (rule new_Map_wf)
qed

lemma serialized_accepted:
  fixes d :: "string \<Rightarrow> 'k" and z :: "'k \<Rightarrow> string"
  assumes wf: "Map_wf stored"
    and rt: "\<forall>sk \<in> set (map fst stored). z (d sk) = sk"
    and a: "map (\<lambda>c. (call_key c, call_value c)) calls =
            map (\<lambda>(key, value). (d key, value)) stored"
  shows "map (\<lambda>(key, value). (d key, value))
           (new_Map (map (\<lambda>(key, value). (z key, value))
              (map (\<lambda>c. (call_key c, call_value c)) (filter call_result calls)))) =
         map (\<lambda>c. (call_key c, call_value c)) (filter call_result calls)"
proof -
  have "map (\<lambda>(key, value). (z key, value)) (map (\<lambda>c. (call_key c, call_value c)) calls) =
        map (\<lambda>(key, value). (z key, value)) (map (\<lambda>(key, value). (d key, value)) stored)"
    by (simp only: a)
  also have "\<dots> = map (\<lambda>e. (z (d (fst e)), snd e)) stored"
    by (simp add: comp_def split_beta)
  also have "\<dots> = stored"
    using rt by (intro map_idI) force
  finally have st: "map (\<lambda>c. (z (call_key c), call_value c)) calls = stored"
    by (simp add: comp_def)
  have "map (\<lambda>c. z (call_key c)) calls = map fst stored"
    using st by (auto simp: comp_def)
  then have "distinct (map (\<lambda>c. z (call_key c)) calls)"
    using wf by (simp add: Map_wf_def)
  then have "distinct (map (\<lambda>c. z (call_key c)) (filter call_result calls))"
    by (rule distinct_map_filter)
  then have "Map_wf (map (\<lambda>c. (z (call_key c), call_value c)) (filter call_result calls))"
    by (simp add: Map_wf_def comp_def)
  then have n: "new_Map (map (\<lambda>c. (z (call_key c), call_value c)) (filter call_result calls)) =
                map (\<lambda>c. (z (call_key c), call_value c)) (filter call_result calls)"
    by (rule new_Map_wf)
  have inv: "d (z (call_key c)) = call_key c" if "c \<in> set calls" for c
  proof -
    from that have "(call_key c, call_value c) \<in>
                      set (map (\<lambda>c. (call_key c, call_value c)) calls)"
      by (simp add: image_iff) blast
    then have "(call_key c, call_value c) \<in> set (map (\<lambda>(key, value). (d key, value)) stored)"
      by (simp only: a)
    then obtain sk v where "(sk, v) \<in> set stored" and k: "call_key c = d sk"
      by auto
    then have "z (d sk) = sk"
      using rt by force
    then show ?thesis by (simp add: k)
  qed
  have "map (\<lambda>(key, value). (d key, value))
           (new_Map (map (\<lambda>(key, value). (z key, value))
              (map (\<lambda>c. (call_key c, call_value c)) (filter call_result calls)))) =
        map (\<lambda>(key, value). (d key, value))
           (map (\<lambda>c. (z (call_key c), call_value c)) (filter call_result calls))"
    using n by (simp add: comp_def)
  also have "\<dots> = map (\<lambda>c. (d (z (call_key c)), call_value c)) (filter call_result calls)"
    by (simp add: comp_def)
  also have "\<dots> = map (\<lambda>c. (call_key c, call_value c)) (filter call_result calls)"
    using inv by (intro map_cong) auto
  finally show ?thesis .
qed

lemma HashMap_filter_run_inv:
  "fst (HashMap_filter_run s m fn) =
     map (\<lambda>c. (call_key c, call_value c)) (filter call_result (snd (HashMap_filter_run s m fn))) \<and>
   (\<forall>j<length (snd (HashMap_filter_run s m fn)).
      call_result (snd (HashMap_filter_run s m fn) ! j) =
        fn (call_value (snd (HashMap_filter_run s m fn) ! j))
           (call_key (snd (HashMap_filter_run s m fn) ! j))
           (call_index (snd (HashMap_filter_run s m fn) ! j)) m \<and>
      call_index (snd (HashMap_filter_run s m fn) ! j) =
        length (filter call_result (take j (snd (HashMap_filter_run s m fn)))))"
  unfolding HashMap_filter_run_def by (rule filter_loop_inv) simp_all

lemma Map_HashMap_filter_run_inv:
  "fst (Map_HashMap_filter_run s m fn) =
     map (\<lambda>c. (call_key c, call_value c))
       (filter call_result (snd (Map_HashMap_filter_run s m fn))) \<and>
   (\<forall>j<length (snd (Map_HashMap_filter_run s m fn)).
      call_result (snd (Map_HashMap_filter_run s m fn) ! j) =
        fn (call_value (snd (Map_HashMap_filter_run s m fn) ! j))
           (call_key (snd (Map_HashMap_filter_run s m fn) ! j))
           (call_index (snd (Map_HashMap_filter_run s m fn) ! j)) m \<and>
      call_index (snd (Map_HashMap_filter_run s m fn) ! j) =
        length (filter call_result (take j (snd (Map_HashMap_filter_run s m fn)))))"
  unfolding Map_HashMap_filter_run_def by (rule filter_loop_inv) simp_all

lemma DefaultMap_filter_run_inv:
  "fst (DefaultMap_filter_run s m fn) =
     map (\<lambda>c. (call_key c, call_value c))
       (filter call_result (snd (DefaultMap_filter_run s m fn))) \<and>
   (\<forall>j<length (snd (DefaultMap_filter_run s m fn)).
      call_result (snd (DefaultMap_filter_run s m fn) ! j) =
        fn (call_value (snd (DefaultMap_filter_run s m fn) ! j))
           (call_key (snd (DefaultMap_filter_run s m fn) ! j))
           (call_index (snd (DefaultMap_filter_run s m fn) ! j)) m \<and>
      call_index (snd (DefaultMap_filter_run s m fn) ! j) = j)"
  unfolding DefaultMap_filter_run_def by (rule filter_loop_index_inv) simp_all

lemma HashMap_filter_run_calls:
  "map (\<lambda>c. (call_key c, call_value c)) (snd (HashMap_filter_run s m fn)) = HashMap_entries s m"
  by (simp add: HashMap_filter_run_def filter_loop_calls)

lemma Map_HashMap_filter_run_calls:
  "map (\<lambda>c. (call_key c, call_value c)) (snd (Map_HashMap_filter_run s m fn)) =
   Map_HashMap_entries s m"
  by (simp add: Map_HashMap_filter_run_def filter_loop_calls)

lemma DefaultMap_filter_run_calls:
  "map (\<lambda>c. (call_key c, call_value c)) (snd (DefaultMap_filter_run s m fn)) =
   DefaultMap_entries s m"
  by (simp add: DefaultMap_filter_run_def DefaultMap_entries_def filter_loop_index_calls)

lemma HashMap_filter_entries:
  assumes "Map_wf (maps s (p_map m))"
  shows "HashMap_entries (fst (HashMap_filter s m fn)) (snd (HashMap_filter s m fn)) =
         fst (HashMap_filter_run s m fn)"
proof -
  have "new_Map (fst (HashMap_filter_run s m fn)) = fst (HashMap_filter_run s m fn)"
    using accepted_new_Map[OF assms, of "snd (HashMap_filter_run s m fn)"]
      HashMap_filter_run_calls[of s m fn] HashMap_filter_run_inv[of s m fn]
    by (simp add: HashMap_entries_eq)
  then show ?thesis
    by (simp add: HashMap_filter_eq HashMap_entries_eq alloc_Map_maps)
qed

lemma Map_HashMap_filter_entries:
  assumes "Map_wf (maps s (internalMap m))"
    and "\<forall>sk \<in> set (Map_HashMap_serializedKeys s m). serializeKey m (deserializeKey m sk) = sk"
  shows "Map_HashMap_entries (fst (Map_HashMap_filter s m fn)) (snd (Map_HashMap_filter s m fn)) =
         fst (Map_HashMap_filter_run s m fn)"
proof -
  have rt: "\<forall>sk \<in> set (map fst (maps s (internalMap m))).
              serializeKey m (deserializeKey m sk) = sk"
    using assms(2) by (simp add: Map_HashMap_serializedKeys_def)
  have a: "map (\<lambda>c. (call_key c, call_value c)) (snd (Map_HashMap_filter_run s m fn)) =
           map (\<lambda>(key, value). (deserializeKey m key, value)) (maps s (internalMap m))"
    using Map_HashMap_filter_run_calls[of s m fn] by (simp add: Map_HashMap_entries_def)
  note t = serialized_accepted[OF assms(1) rt a]
  show ?thesis
    using t Map_HashMap_filter_run_inv[of s m fn]
    by (simp add: Map_HashMap_filter_def Map_HashMap_fromEntries_eq Map_HashMap_entries_def
        alloc_Map_maps)
qed

lemma DefaultMap_filter_entries:
  assumes "Map_wf (maps s (internalMap (dm_internalMap m)))"
    and "\<forall>sk \<in> set (DefaultMap_serializedKeys s m).
           serializeKey (dm_internalMap m) (deserializeKey (dm_internalMap m) sk) = sk"
  shows "DefaultMap_entries (fst (DefaultMap_filter s m fn)) (snd (DefaultMap_filter s m fn)) =
         fst (DefaultMap_filter_run s m fn)"
proof -
  have rt: "\<forall>sk \<in> set (map fst (maps s (internalMap (dm_internalMap m)))).
              serializeKey (dm_internalMap m) (deserializeKey (dm_internalMap m) sk) = sk"
    using assms(2) by (simp add: DefaultMap_serializedKeys_def Map_HashMap_serializedKeys_def)
  have a: "map (\<lambda>c. (call_key c, call_value c)) (snd (DefaultMap_filter_run s m fn)) =
           map (\<lambda>(key, value). (deserializeKey (dm_internalMap m) key, value))
             (maps s (internalMap (dm_internalMap m)))"
    using DefaultMap_filter_run_calls[of s m fn]
    by (simp add: DefaultMap_entries_def Map_HashMap_entries_def)
  note t = serialized_accepted[OF assms(1) rt a]
  show ?thesis
    using t DefaultMap_filter_run_inv[of s m fn]
    by (simp add: DefaultMap_filter_def DefaultMap_fromEntries_eq DefaultMap_entries_def
        Map_HashMap_entries_def alloc_Map_maps)
qed

text \<open>
  Claim C9, as the claim states it for every map: \<open>filter\<close> of the DefaultMap of the
  scores with the predicate \<open>index = 1\<close> calls it on the second entry with the index
  \<open>1\<close>, when no entry has been accepted, and keeps that entry; on the same entries the
  HashMap with serialized keys keeps none.
\<close>

theorem C9_DefaultMap_filter_index_is_the_position:
  "snd (DefaultMap_filter_run (fst scores) (snd scores) second_only) =
     [\<lparr>call_value = JNum 1, call_key = ''a'', call_index = 0, call_result = False\<rparr>,
      \<lparr>call_value = JNum 2, call_key = ''b'', call_index = 1, call_result = True\<rparr>] \<and>
   fst (DefaultMap_filter_run (fst scores) (snd scores) second_only) = [(''b'', JNum 2)] \<and>
   Map_HashMap_entries (fst words) (snd words) = DefaultMap_entries (fst scores) (snd scores) \<and>
   fst (Map_HashMap_filter_run (fst words) (snd words) second_only) = []"
  by (simp add: DefaultMap_filter_run_def Map_HashMap_filter_run_def Map_HashMap_entries_def
      DefaultMap_entries_def scores_eq words_eq second_only_def untag_def)

text \<open>
  Claim C9, amended. \<open>filter\<close> calls the predicate once on every entry, in iteration
  order, with the map as the fourth argument. The index it passes is the number of
  entries accepted so far in both HashMap classes, and the position of the entry, the
  number of entries seen so far, in a DefaultMap. The entries it collects are those the
  predicate accepted, in that order, and they are the entries of the returned map: for
  the maps with serialized keys, where \<open>serializeKey\<close> undoes \<open>deserializeKey\<close> on the
  stored keys.
\<close>

theorem C9_filter_index_and_result:
  "(let run = HashMap_filter_run s m fn; calls = snd run
    in map (\<lambda>c. (call_key c, call_value c)) calls = HashMap_entries s m \<and>
       (\<forall>j<length calls.
          call_result (calls ! j) =
            fn (call_value (calls ! j)) (call_key (calls ! j)) (call_index (calls ! j)) m \<and>
          call_index (calls ! j) = length (filter call_result (take j calls))) \<and>
       fst run = map (\<lambda>c. (call_key c, call_value c)) (filter call_result calls) \<and>
       (Map_wf (maps s (p_map m)) \<longrightarrow>
          HashMap_entries (fst (HashMap_filter s m fn)) (snd (HashMap_filter s m fn)) =
            fst run)) \<and>
   (let run = Map_HashMap_filter_run s2 m2 fn2; calls = snd run
    in map (\<lambda>c. (call_key c, call_value c)) calls = Map_HashMap_entries s2 m2 \<and>
       (\<forall>j<length calls.
          call_result (calls ! j) =
            fn2 (call_value (calls ! j)) (call_key (calls ! j)) (call_index (calls ! j)) m2 \<and>
          call_index (calls ! j) = length (filter call_result (take j calls))) \<and>
       fst run = map (\<lambda>c. (call_key c, call_value c)) (filter call_result calls) \<and>
       (Map_wf (maps s2 (internalMap m2)) \<and>
        (\<forall>sk \<in> set (Map_HashMap_serializedKeys s2 m2).
           serializeKey m2 (deserializeKey m2 sk) = sk) \<longrightarrow>
          Map_HashMap_entries (fst (Map_HashMap_filter s2 m2 fn2))
            (snd (Map_HashMap_filter s2 m2 fn2)) = fst run)) \<and>
   (let run = DefaultMap_filter_run s3 m3 fn3; calls = snd run
    in map (\<lambda>c. (call_key c, call_value c)) calls = DefaultMap_entries s3 m3 \<and>
       (\<forall>j<length calls.
          call_result (calls ! j) =
            fn3 (call_value (calls ! j)) (call_key (calls ! j)) (call_index (calls ! j)) m3 \<and>
          call_index (calls ! j) = j) \<and>
       fst run = map (\<lambda>c. (call_key c, call_value c)) (filter call_result calls) \<and>
       (Map_wf (maps s3 (internalMap (dm_internalMap m3))) \<and>
        (\<forall>sk \<in> set (DefaultMap_serializedKeys s3 m3).
           serializeKey (dm_internalMap m3) (deserializeKey (dm_internalMap m3) sk) = sk) \<longrightarrow>
          DefaultMap_entries (fst (DefaultMap_filter s3 m3 fn3))
            (snd (DefaultMap_filter s3 m3 fn3)) = fst run))"
  unfolding Let_def
proof (intro conjI impI)
  show "map (\<lambda>c. (call_key c, call_value c)) (snd (HashMap_filter_run s m fn)) =
        HashMap_entries s m"
    by (rule HashMap_filter_run_calls)
  show "\<forall>j<length (snd (HashMap_filter_run s m fn)).
          call_result (snd (HashMap_filter_run s m fn) ! j) =
            fn (call_value (snd (HashMap_filter_run s m fn) ! j))
               (call_key (snd (HashMap_filter_run s m fn) ! j))
               (call_index (snd (HashMap_filter_run s m fn) ! j)) m \<and>
          call_index (snd (HashMap_filter_run s m fn) ! j) =
            length (filter call_result (take j (snd (HashMap_filter_run s m fn))))"
    using HashMap_filter_run_inv[of s m fn] by (rule conjunct2)
  show "fst (HashMap_filter_run s m fn) =
        map (\<lambda>c. (call_key c, call_value c))
          (filter call_result (snd (HashMap_filter_run s m fn)))"
    using HashMap_filter_run_inv[of s m fn] by (rule conjunct1)
  show "map (\<lambda>c. (call_key c, call_value c)) (snd (Map_HashMap_filter_run s2 m2 fn2)) =
        Map_HashMap_entries s2 m2"
    by (rule Map_HashMap_filter_run_calls)
  show "\<forall>j<length (snd (Map_HashMap_filter_run s2 m2 fn2)).
          call_result (snd (Map_HashMap_filter_run s2 m2 fn2) ! j) =
            fn2 (call_value (snd (Map_HashMap_filter_run s2 m2 fn2) ! j))
               (call_key (snd (Map_HashMap_filter_run s2 m2 fn2) ! j))
               (call_index (snd (Map_HashMap_filter_run s2 m2 fn2) ! j)) m2 \<and>
          call_index (snd (Map_HashMap_filter_run s2 m2 fn2) ! j) =
            length (filter call_result (take j (snd (Map_HashMap_filter_run s2 m2 fn2))))"
    using Map_HashMap_filter_run_inv[of s2 m2 fn2] by (rule conjunct2)
  show "fst (Map_HashMap_filter_run s2 m2 fn2) =
        map (\<lambda>c. (call_key c, call_value c))
          (filter call_result (snd (Map_HashMap_filter_run s2 m2 fn2)))"
    using Map_HashMap_filter_run_inv[of s2 m2 fn2] by (rule conjunct1)
  show "map (\<lambda>c. (call_key c, call_value c)) (snd (DefaultMap_filter_run s3 m3 fn3)) =
        DefaultMap_entries s3 m3"
    by (rule DefaultMap_filter_run_calls)
  show "\<forall>j<length (snd (DefaultMap_filter_run s3 m3 fn3)).
          call_result (snd (DefaultMap_filter_run s3 m3 fn3) ! j) =
            fn3 (call_value (snd (DefaultMap_filter_run s3 m3 fn3) ! j))
               (call_key (snd (DefaultMap_filter_run s3 m3 fn3) ! j))
               (call_index (snd (DefaultMap_filter_run s3 m3 fn3) ! j)) m3 \<and>
          call_index (snd (DefaultMap_filter_run s3 m3 fn3) ! j) = j"
    using DefaultMap_filter_run_inv[of s3 m3 fn3] by (rule conjunct2)
  show "fst (DefaultMap_filter_run s3 m3 fn3) =
        map (\<lambda>c. (call_key c, call_value c))
          (filter call_result (snd (DefaultMap_filter_run s3 m3 fn3)))"
    using DefaultMap_filter_run_inv[of s3 m3 fn3] by (rule conjunct1)
next
  assume "Map_wf (maps s (p_map m))"
  then show "HashMap_entries (fst (HashMap_filter s m fn)) (snd (HashMap_filter s m fn)) =
             fst (HashMap_filter_run s m fn)"
    by (rule HashMap_filter_entries)
next
  assume "Map_wf (maps s2 (internalMap m2)) \<and>
        (\<forall>sk \<in> set (Map_HashMap_serializedKeys s2 m2).
           serializeKey m2 (deserializeKey m2 sk) = sk)"
  then show "Map_HashMap_entries (fst (Map_HashMap_filter s2 m2 fn2))
            (snd (Map_HashMap_filter s2 m2 fn2)) = fst (Map_HashMap_filter_run s2 m2 fn2)"
    by (simp add: Map_HashMap_filter_entries)
next
  assume "Map_wf (maps s3 (internalMap (dm_internalMap m3))) \<and>
        (\<forall>sk \<in> set (DefaultMap_serializedKeys s3 m3).
           serializeKey (dm_internalMap m3) (deserializeKey (dm_internalMap m3) sk) = sk)"
  then show "DefaultMap_entries (fst (DefaultMap_filter s3 m3 fn3))
            (snd (DefaultMap_filter s3 m3 fn3)) = fst (DefaultMap_filter_run s3 m3 fn3)"
    by (simp add: DefaultMap_filter_entries)
qed

theorem C9_filter_index_and_result_witness:
  "(let s = fst numbers; m = snd numbers; calls = snd (HashMap_filter_run s m long_name)
    in Map_wf (maps s (p_map m)) \<and>
       calls =
         [\<lparr>call_value = JStr ''one'', call_key = 1, call_index = 0, call_result = False\<rparr>,
          \<lparr>call_value = JStr ''two'', call_key = 2, call_index = 0, call_result = False\<rparr>,
          \<lparr>call_value = JStr ''three'', call_key = 3, call_index = 0, call_result = True\<rparr>,
          \<lparr>call_value = JStr ''four'', call_key = 4, call_index = 1, call_result = True\<rparr>] \<and>
       3 < length calls \<and>
       call_index (calls ! 3) = length (filter call_result (take 3 calls)) \<and>
       HashMap_entries (fst (HashMap_filter s m long_name)) (snd (HashMap_filter s m long_name)) =
         [(3, JStr ''three''), (4, JStr ''four'')]) \<and>
   (let s = fst words; m = snd words; calls = snd (Map_HashMap_filter_run s m keep_all)
    in Map_wf (maps s (internalMap m)) \<and>
       Map_HashMap_serializedKeys s m = [''#a'', ''#b''] \<and>
       serializeKey m (deserializeKey m ''#a'') = ''#a'' \<and>
       serializeKey m (deserializeKey m ''#b'') = ''#b'' \<and>
       calls =
         [\<lparr>call_value = JNum 1, call_key = ''a'', call_index = 0, call_result = True\<rparr>,
          \<lparr>call_value = JNum 2, call_key = ''b'', call_index = 1, call_result = True\<rparr>] \<and>
       1 < length calls \<and>
       call_index (calls ! 1) = length (filter call_result (take 1 calls)) \<and>
       Map_HashMap_entries (fst (Map_HashMap_filter s m keep_all))
         (snd (Map_HashMap_filter s m keep_all)) = [(''a'', JNum 1), (''b'', JNum 2)]) \<and>
   (let s = fst scores; m = snd scores; calls = snd (DefaultMap_filter_run s m second_only)
    in Map_wf (maps s (internalMap (dm_internalMap m))) \<and>
       DefaultMap_serializedKeys s m = [''#a'', ''#b''] \<and>
       serializeKey (dm_internalMap m) (deserializeKey (dm_internalMap m) ''#a'') = ''#a'' \<and>
       serializeKey (dm_internalMap m) (deserializeKey (dm_internalMap m) ''#b'') = ''#b'' \<and>
       1 < length calls \<and>
       call_index (calls ! 1) = 1 \<and>
       DefaultMap_entries (fst (DefaultMap_filter s m second_only))
         (snd (DefaultMap_filter s m second_only)) = [(''b'', JNum 2)])"
proof -
  have h1: "Map_wf (maps (fst numbers) (p_map (snd numbers)))"
    by (simp add: numbers_eq Map_wf_def)
  have k2: "Map_HashMap_serializedKeys (fst words) (snd words) = [''#a'', ''#b''] \<and>
            serializeKey (snd words) (deserializeKey (snd words) ''#a'') = ''#a'' \<and>
            serializeKey (snd words) (deserializeKey (snd words) ''#b'') = ''#b''"
    by (simp add: words_eq Map_HashMap_serializedKeys_def tag_def untag_def)
  have h2: "Map_wf (maps (fst words) (internalMap (snd words))) \<and>
            (\<forall>sk \<in> set (Map_HashMap_serializedKeys (fst words) (snd words)).
               serializeKey (snd words) (deserializeKey (snd words) sk) = sk)"
    using k2 by (simp add: words_eq Map_wf_def)
  have k3: "DefaultMap_serializedKeys (fst scores) (snd scores) = [''#a'', ''#b''] \<and>
            serializeKey (dm_internalMap (snd scores))
              (deserializeKey (dm_internalMap (snd scores)) ''#a'') = ''#a'' \<and>
            serializeKey (dm_internalMap (snd scores))
              (deserializeKey (dm_internalMap (snd scores)) ''#b'') = ''#b''"
    by (simp add: scores_eq DefaultMap_serializedKeys_def Map_HashMap_serializedKeys_def
        tag_def untag_def)
  have h3: "Map_wf (maps (fst scores) (internalMap (dm_internalMap (snd scores)))) \<and>
            (\<forall>sk \<in> set (DefaultMap_serializedKeys (fst scores) (snd scores)).
               serializeKey (dm_internalMap (snd scores))
                 (deserializeKey (dm_internalMap (snd scores)) sk) = sk)"
    using k3 by (simp add: scores_eq Map_wf_def)
  have r1: "HashMap_filter_run (fst numbers) (snd numbers) long_name =
     ([(3, JStr ''three''), (4, JStr ''four'')],
      [\<lparr>call_value = JStr ''one'', call_key = 1, call_index = 0, call_result = False\<rparr>,
       \<lparr>call_value = JStr ''two'', call_key = 2, call_index = 0, call_result = False\<rparr>,
       \<lparr>call_value = JStr ''three'', call_key = 3, call_index = 0, call_result = True\<rparr>,
       \<lparr>call_value = JStr ''four'', call_key = 4, call_index = 1, call_result = True\<rparr>])"
    by (simp add: HashMap_filter_run_def HashMap_entries_def numbers_eq long_name_def)
  have r2: "Map_HashMap_filter_run (fst words) (snd words) keep_all =
     ([(''a'', JNum 1), (''b'', JNum 2)],
      [\<lparr>call_value = JNum 1, call_key = ''a'', call_index = 0, call_result = True\<rparr>,
       \<lparr>call_value = JNum 2, call_key = ''b'', call_index = 1, call_result = True\<rparr>])"
    by (simp add: Map_HashMap_filter_run_def Map_HashMap_entries_def words_eq keep_all_def
        untag_def)
  have r3: "DefaultMap_filter_run (fst scores) (snd scores) second_only =
     ([(''b'', JNum 2)],
      [\<lparr>call_value = JNum 1, call_key = ''a'', call_index = 0, call_result = False\<rparr>,
       \<lparr>call_value = JNum 2, call_key = ''b'', call_index = 1, call_result = True\<rparr>])"
    by (simp add: DefaultMap_filter_run_def Map_HashMap_entries_def scores_eq second_only_def
        untag_def)
  note t = C9_filter_index_and_result
    [of "fst numbers" "snd numbers" long_name "fst words" "snd words" keep_all
        "fst scores" "snd scores" second_only, unfolded Let_def]
  from t h1 h2 h3
  have e: "HashMap_entries (fst (HashMap_filter (fst numbers) (snd numbers) long_name))
             (snd (HashMap_filter (fst numbers) (snd numbers) long_name)) =
           fst (HashMap_filter_run (fst numbers) (snd numbers) long_name) \<and>
           Map_HashMap_entries (fst (Map_HashMap_filter (fst words) (snd words) keep_all))
             (snd (Map_HashMap_filter (fst words) (snd words) keep_all)) =
           fst (Map_HashMap_filter_run (fst words) (snd words) keep_all) \<and>
           DefaultMap_entries (fst (DefaultMap_filter (fst scores) (snd scores) second_only))
             (snd (DefaultMap_filter (fst scores) (snd scores) second_only)) =
           fst (DefaultMap_filter_run (fst scores) (snd scores) second_only)"
    by blast
  from e h1 h2 h3 k2 k3 show ?thesis
    by (simp add: Let_def r1 r2 r3)
qed

text \<open>
  Where \<open>serializeKey\<close> does not undo \<open>deserializeKey\<close>, the map that \<open>filter\<close> returns can
  differ from the accepted entries: with a \<open>deserializeKey\<close> that forgets the key, both
  entries are accepted and the returned map has one.
\<close>

lemma Map_HashMap_filter_forgetful:
  "fst (Map_HashMap_filter_run (fst forgetful) (snd forgetful) keep_all) =
     [(''x'', JNum 1), (''x'', JNum 2)] \<and>
   Map_HashMap_entries (fst (Map_HashMap_filter (fst forgetful) (snd forgetful) keep_all))
     (snd (Map_HashMap_filter (fst forgetful) (snd forgetful) keep_all)) = [(''x'', JNum 2)]"
  by (simp add: forgetful_def Map_HashMap_filter_def Map_HashMap_filter_run_def
      Map_HashMap_fromEntries_eq Map_HashMap_entries_def alloc_Map_maps new_Map_def
      empty_store_def keep_all_def tag_def)

section \<open>The stored keys stay distinct\<close>

text \<open>
  The theorems on the entries of a map take its \<open>Map\<close> to list no key twice. The empty
  store is so, and every write of the three maps keeps every \<open>Map\<close> of the store so
  (a DefaultMap writes through its internal HashMap).
\<close>

lemma empty_store_wf: "Map_wf (maps empty_store r)"
  by (simp add: empty_store_def Map_wf_def)

lemma write_Map_wf: "Map_wf m \<Longrightarrow> Map_wf (maps s r) \<Longrightarrow> Map_wf (maps (write_Map s r' m) r)"
  by (simp add: maps_write_Map)

lemma alloc_Map_wf: "Map_wf (maps s r) \<Longrightarrow> Map_wf (maps (fst (alloc_Map s es)) r)"
  by (simp add: alloc_Map_maps Map_wf_new_Map)

lemma HashMap_set_wf:
  "Map_wf (maps s (p_map m)) \<Longrightarrow> Map_wf (maps s r) \<Longrightarrow> Map_wf (maps (HashMap_set s m k v) r)"
  by (simp add: HashMap_set_def write_Map_wf Map_wf_set)

lemma HashMap_delete_wf:
  "HashMap_delete s m k = Inr s' \<Longrightarrow> Map_wf (maps s (p_map m)) \<Longrightarrow> Map_wf (maps s r) \<Longrightarrow>
   Map_wf (maps s' r)"
  by (auto simp: HashMap_delete_def write_Map_wf Map_wf_delete split: if_splits)

lemma HashMap_clear_wf: "Map_wf (maps s r) \<Longrightarrow> Map_wf (maps (HashMap_clear s m) r)"
  by (simp add: HashMap_clear_def maps_write_Map Map_wf_def)

lemma Map_HashMap_set_wf:
  "Map_wf (maps s (internalMap m)) \<Longrightarrow> Map_wf (maps s r) \<Longrightarrow>
   Map_wf (maps (Map_HashMap_set s m k v) r)"
  by (simp add: Map_HashMap_set_def write_Map_wf Map_wf_set)

lemma Map_HashMap_delete_wf:
  "Map_HashMap_delete s m k = Inr s' \<Longrightarrow> Map_wf (maps s (internalMap m)) \<Longrightarrow>
   Map_wf (maps s r) \<Longrightarrow> Map_wf (maps s' r)"
  by (auto simp: Map_HashMap_delete_def write_Map_wf Map_wf_delete split: if_splits)

lemma Map_HashMap_clear_wf: "Map_wf (maps s r) \<Longrightarrow> Map_wf (maps (Map_HashMap_clear s m) r)"
  by (simp add: Map_HashMap_clear_def maps_write_Map Map_wf_def)

end
